theory Spec2Isabelle
  imports Complex_Main "HOL-Library.Word"
begin

unbundle bit_operations_syntax

section \<open>Bytes, errors and the struct codec\<close>

text \<open>
  Python \<open>bytes\<close> are lists of 8-bit words; Python integers are unbounded, hence \<open>int\<close>.
\<close>

type_synonym byte = "8 word"
type_synonym bytes = "byte list"

text \<open>
  Every way a call of the driver can raise, as a value. The source raises
  \<open>AssertionError\<close> at each \<open>assert\<close>; the constructors keep the assertions apart, named
  after the error taxonomy of the specification:
  \<^item> \<open>OpcodeLengthError\<close>: \<open>assert len(reqtype) == 2\<close> in \<open>execute\<close>;
  \<^item> \<open>StructError\<close>: \<open>struct.pack\<close> given a value outside the range of its format;
  \<^item> \<open>UnderflowError\<close>: \<open>BytesBuffer.unpack\<close> with too few bytes left;
  \<^item> \<open>ProtocolMismatchError\<close>: \<open>assert req_header == resp_header\<close>;
  \<^item> \<open>DeviceRejectedError\<close>: \<open>assert retcode == 1\<close>;
  \<^item> \<open>LengthMismatchError\<close>: \<open>assert r.size() == flen\<close> in \<open>read_request\<close>;
  \<^item> \<open>TrailingBytesError\<close>: \<open>assert r.size() == 0\<close>;
  \<^item> \<open>EmptyBatchError\<close>: \<open>assert len(vsfr_ids)\<close>;
  \<^item> \<open>ArgumentError\<close>: the assertions on the arguments of the setters;
  \<^item> \<open>SerialLengthError\<close>: \<open>assert serial_len % 4 == 0\<close>;
  \<^item> \<open>IncompatibleFirmwareError\<close>: the \<open>Exception\<close> raised by \<open>__init__\<close>;
  \<^item> \<open>IndexError\<close>, \<open>ValueError\<close>, \<open>UnicodeDecodeError\<close>: the built-in exceptions of
    list indexing, \<open>int()\<close> and \<open>bytes.decode\<close>;
  \<^item> \<open>OverflowError\<close>: an integer too large to convert to a float.
\<close>

datatype error =
    OpcodeLengthError
  | StructError
  | UnderflowError
  | ProtocolMismatchError
  | DeviceRejectedError
  | LengthMismatchError
  | TrailingBytesError
  | EmptyBatchError
  | ArgumentError
  | SerialLengthError
  | IncompatibleFirmwareError
  | IndexError
  | ValueError
  | UnicodeDecodeError
  | OverflowError

text \<open>\<open>n\<close> little-endian bytes of an integer, and the integer of little-endian bytes.\<close>

fun le_bytes :: "nat \<Rightarrow> int \<Rightarrow> bytes" where
  "le_bytes 0 v = []"
| "le_bytes (Suc n) v = word_of_int v # le_bytes n (v div 256)"

fun le_int :: "bytes \<Rightarrow> int" where
  "le_int [] = 0"
| "le_int (b # bs) = uint b + 256 * le_int bs"

text \<open>
  \<open>struct.pack('<B', v)\<close>, \<open>struct.pack('<H', v)\<close> and \<open>struct.pack('<I', v)\<close>: they raise
  \<open>struct.error\<close> when \<open>v\<close> does not fit the unsigned format.
\<close>

definition pack_B :: "int \<Rightarrow> error + bytes" where
  "pack_B v = (if 0 \<le> v \<and> v < 2 ^ 8 then Inr (le_bytes 1 v) else Inl StructError)"

definition pack_I :: "int \<Rightarrow> error + bytes" where
  "pack_I v = (if 0 \<le> v \<and> v < 2 ^ 32 then Inr (le_bytes 4 v) else Inl StructError)"

section \<open>Floating point\<close>

text \<open>
  A Python float: a finite value, given by the real number it denotes, one of the two
  infinities, or NaN. The two zeros are not told apart, as Python's \<open>==\<close> does not
  tell them apart. The rounding of an exact result to the format is a parameter of the
  operations: it returns the nearest finite float, or an infinity when the result
  overflows. A finite value belongs to the format when rounding leaves it as it is.
\<close>

datatype pyfloat = Fin real | PInf | NInf | NaN

definition is_finite :: "pyfloat \<Rightarrow> bool" where
  "is_finite v = (case v of Fin x \<Rightarrow> True | PInf \<Rightarrow> False | NInf \<Rightarrow> False | NaN \<Rightarrow> False)"

definition is_float :: "(real \<Rightarrow> pyfloat) \<Rightarrow> pyfloat \<Rightarrow> bool" where
  "is_float rnd v = (case v of Fin x \<Rightarrow> rnd x = Fin x | PInf \<Rightarrow> True | NInf \<Rightarrow> True | NaN \<Rightarrow> True)"

text \<open>\<open>x * y\<close> on floats: NaN propagates, and an infinity times zero is NaN.\<close>

fun float_mul :: "(real \<Rightarrow> pyfloat) \<Rightarrow> pyfloat \<Rightarrow> pyfloat \<Rightarrow> pyfloat" where
  "float_mul rnd NaN y = NaN"
| "float_mul rnd x NaN = NaN"
| "float_mul rnd (Fin a) (Fin b) = rnd (a * b)"
| "float_mul rnd (Fin a) PInf = (if a = 0 then NaN else if 0 < a then PInf else NInf)"
| "float_mul rnd (Fin a) NInf = (if a = 0 then NaN else if 0 < a then NInf else PInf)"
| "float_mul rnd PInf (Fin b) = (if b = 0 then NaN else if 0 < b then PInf else NInf)"
| "float_mul rnd NInf (Fin b) = (if b = 0 then NaN else if 0 < b then NInf else PInf)"
| "float_mul rnd PInf PInf = PInf"
| "float_mul rnd PInf NInf = NInf"
| "float_mul rnd NInf PInf = NInf"
| "float_mul rnd NInf NInf = PInf"

text \<open>\<open>x + y\<close> on floats: NaN propagates, and the sum of opposite infinities is NaN.\<close>

fun float_add :: "(real \<Rightarrow> pyfloat) \<Rightarrow> pyfloat \<Rightarrow> pyfloat \<Rightarrow> pyfloat" where
  "float_add rnd NaN y = NaN"
| "float_add rnd x NaN = NaN"
| "float_add rnd (Fin a) (Fin b) = rnd (a + b)"
| "float_add rnd (Fin a) PInf = PInf"
| "float_add rnd (Fin a) NInf = NInf"
| "float_add rnd PInf (Fin b) = PInf"
| "float_add rnd NInf (Fin b) = NInf"
| "float_add rnd PInf PInf = PInf"
| "float_add rnd NInf NInf = NInf"
| "float_add rnd PInf NInf = NaN"
| "float_add rnd NInf PInf = NaN"

text \<open>\<open>x == y\<close> on floats: NaN is equal to nothing, not even to itself.\<close>

definition float_eq :: "pyfloat \<Rightarrow> pyfloat \<Rightarrow> bool" where
  "float_eq x y = (x \<noteq> NaN \<and> y \<noteq> NaN \<and> x = y)"

text \<open>
  The conversion of the integer operand of a mixed operation to a float; it raises
  \<open>OverflowError\<close> when the integer is too large for the format.
\<close>

definition float_of_int :: "(real \<Rightarrow> pyfloat) \<Rightarrow> int \<Rightarrow> error + pyfloat" where
  "float_of_int rnd n =
     (case rnd (of_int n) of
        Fin x \<Rightarrow> Inr (Fin x)
      | PInf \<Rightarrow> Inl OverflowError
      | NInf \<Rightarrow> Inl OverflowError
      | NaN \<Rightarrow> Inl OverflowError)"

text \<open>
  \<open>spectrum_channel_to_energy\<close>: \<open>a0 + a1 * channel_number + a2 * channel_number *
  channel_number\<close>, which Python evaluates as
  \<open>(a0 + (a1 * channel_number)) + ((a2 * channel_number) * channel_number)\<close>, each
  operation rounded.
\<close>

definition spectrum_channel_to_energy ::
  "(real \<Rightarrow> pyfloat) \<Rightarrow> int \<Rightarrow> pyfloat \<Rightarrow> pyfloat \<Rightarrow> pyfloat \<Rightarrow> error + pyfloat" where
  "spectrum_channel_to_energy rnd channel_number a0 a1 a2 =
     (case float_of_int rnd channel_number of
        Inl e \<Rightarrow> Inl e
      | Inr c \<Rightarrow>
          Inr (float_add rnd (float_add rnd a0 (float_mul rnd a1 c))
                 (float_mul rnd (float_mul rnd a2 c) c)))"

section \<open>The cursor buffer\<close>

text \<open>
  Modelled from the spec: the class \<open>BytesBuffer\<close> (module \<open>radiacode.bytes_buffer\<close>) is
  imported by the driver but its source is not part of the sources at hand. The
  specification (4.1) describes it as a byte sequence with a read cursor. The driver
  itself reads and assigns the field \<open>_data\<close> (here \<open>bdata\<close>), the whole byte sequence.
\<close>

record BytesBuffer =
  bdata :: bytes
  bpos :: nat

text \<open>
  Modelled from the spec: the constructor of the missing class \<open>BytesBuffer\<close>, a cursor
  at the start of the bytes.
\<close>

definition new_buffer :: "bytes \<Rightarrow> BytesBuffer" where
  "new_buffer bs = \<lparr>bdata = bs, bpos = 0\<rparr>"

text \<open>
  Modelled from the spec: \<open>BytesBuffer.size\<close> of the missing class, the number of bytes
  left unread (specification 4.1).
\<close>

definition size_buffer :: "BytesBuffer \<Rightarrow> int" where
  "size_buffer r = int (length (bdata r)) - int (bpos r)"

text \<open>
  Modelled from the spec: \<open>BytesBuffer.data\<close> of the missing class, the unread rest.
\<close>

definition data_buffer :: "BytesBuffer \<Rightarrow> bytes" where
  "data_buffer r = drop (bpos r) (bdata r)"

text \<open>
  Modelled from the spec: \<open>BytesBuffer.unpack\<close> of the missing class, for the format
  \<open>'<ns'\<close>: \<open>n\<close> bytes off the cursor, which advances by exactly the consumed width;
  an underflow error when fewer than \<open>n\<close> bytes remain (specification 4.1).
\<close>

definition unpack_s :: "nat \<Rightarrow> BytesBuffer \<Rightarrow> error + bytes \<times> BytesBuffer" where
  "unpack_s n r =
     (if size_buffer r < int n then Inl UnderflowError
      else Inr (take n (drop (bpos r) (bdata r)), r\<lparr>bpos := bpos r + n\<rparr>))"

text \<open>
  Modelled from the spec: \<open>BytesBuffer.unpack\<close> of the missing class, for the format
  \<open>'<I'\<close>: one unsigned 32-bit little-endian integer.
\<close>

definition unpack_I :: "BytesBuffer \<Rightarrow> error + int \<times> BytesBuffer" where
  "unpack_I r =
     (case unpack_s 4 r of Inl e \<Rightarrow> Inl e | Inr (bs, r') \<Rightarrow> Inr (le_int bs, r'))"

text \<open>
  Modelled from the spec: \<open>BytesBuffer.unpack\<close> of the missing class, for the format
  \<open>'<II'\<close>: two unsigned 32-bit little-endian integers, eight bytes at once.
\<close>

definition unpack_II :: "BytesBuffer \<Rightarrow> error + (int \<times> int) \<times> BytesBuffer" where
  "unpack_II r =
     (case unpack_s 8 r of Inl e \<Rightarrow> Inl e
      | Inr (bs, r') \<Rightarrow> Inr ((le_int (take 4 bs), le_int (drop 4 bs)), r'))"

text \<open>
  Modelled from the spec: \<open>BytesBuffer.unpack\<close> of the missing class, for the format
  \<open>'<HH'\<close>: two unsigned 16-bit little-endian integers, four bytes at once.
\<close>

definition unpack_HH :: "BytesBuffer \<Rightarrow> error + (int \<times> int) \<times> BytesBuffer" where
  "unpack_HH r =
     (case unpack_s 4 r of Inl e \<Rightarrow> Inl e
      | Inr (bs, r') \<Rightarrow> Inr ((le_int (take 2 bs), le_int (drop 2 bs)), r'))"

text \<open>
  Modelled from the spec: \<open>BytesBuffer.unpack\<close> of the missing class, for the format
  \<open>'<B'\<close>: one unsigned byte.
\<close>

definition unpack_B :: "BytesBuffer \<Rightarrow> error + int \<times> BytesBuffer" where
  "unpack_B r =
     (case unpack_s 1 r of Inl e \<Rightarrow> Inl e | Inr (bs, r') \<Rightarrow> Inr (le_int bs, r'))"

section \<open>The session and the transport\<close>

text \<open>
  The part of a \<open>RadiaCode\<close> object that \<open>execute\<close> works on: the sequence counter
  \<open>_seq\<close> and the connection \<open>_connection\<close>, which holds the requests handed to the
  transport, oldest first. The record is extended below by the two attributes that
  \<open>__init__\<close> sets later.
\<close>

record link =
  seq :: int
  connection :: "bytes list"

text \<open>
  Modelled from the spec: the device behind the transports
  (\<open>radiacode.transports.usb\<close>, \<open>radiacode.transports.bluetooth\<close>), which are not part
  of the sources at hand. It is a parameter: a function from the requests it has
  received before and the current request to its response.
\<close>

type_synonym device = "bytes list \<Rightarrow> bytes \<Rightarrow> bytes"

text \<open>
  Modelled from the spec: the method \<open>execute\<close> of the missing transports. The
  specification (6) gives its contract: a blocking \<open>send_and_receive(bytes) -> bytes\<close>
  that returns exactly one full response buffer per request buffer. The driver reads
  the response through a cursor buffer.
\<close>

definition connection_execute ::
  "device \<Rightarrow> bytes \<Rightarrow> 'a link_scheme \<Rightarrow> BytesBuffer \<times> 'a link_scheme" where
  "connection_execute dev full_request s =
     (new_buffer (dev (connection s) full_request),
      s\<lparr>connection := connection s @ [full_request]\<rparr>)"

section \<open>The framer\<close>

text \<open>
  \<open>RadiaCode.execute\<close>. The counter is advanced before anything can fail except the
  assertion on the opcode, so the returned session carries the advanced counter also
  when the call raises later.
\<close>

definition execute ::
  "device \<Rightarrow> bytes \<Rightarrow> bytes option \<Rightarrow> 'a link_scheme
     \<Rightarrow> (error + BytesBuffer) \<times> 'a link_scheme" where
  "execute dev reqtype args s =
     (if length reqtype \<noteq> 2 then (Inl OpcodeLengthError, s)
      else
        let req_seq_no = 0x80 + seq s;
            s1 = s\<lparr>seq := (seq s + 1) mod 32\<rparr>
        in (case pack_B req_seq_no of
             Inl e \<Rightarrow> (Inl e, s1)
           | Inr sb \<Rightarrow>
              (let req_header = reqtype @ [0] @ sb;
                   request = req_header @ (case args of None \<Rightarrow> [] | Some a \<Rightarrow> a)
               in (case pack_I (int (length request)) of
                    Inl e \<Rightarrow> (Inl e, s1)
                  | Inr lp \<Rightarrow>
                     (let full_request = lp @ request;
                          (response, s2) = connection_execute dev full_request s1
                      in (case unpack_s 4 response of
                           Inl e \<Rightarrow> (Inl e, s2)
                         | Inr (resp_header, r) \<Rightarrow>
                             if req_header \<noteq> resp_header
                             then (Inl ProtocolMismatchError, s2)
                             else (Inr r, s2)))))))"

text \<open>
  \<open>RadiaCode.read_request\<close>. The argument is \<open>int(command_id)\<close>. The payload of the
  request is packed before \<open>execute\<close> is entered. The firmware workaround drops the
  last byte of \<open>_data\<close> when exactly one byte more than declared is left and that
  byte is zero.
\<close>

definition read_request ::
  "device \<Rightarrow> int \<Rightarrow> 'a link_scheme \<Rightarrow> (error + BytesBuffer) \<times> 'a link_scheme" where
  "read_request dev command_id s =
     (case pack_I command_id of
        Inl e \<Rightarrow> (Inl e, s)
      | Inr payload \<Rightarrow>
         (case execute dev [0x26, 0x08] (Some payload) s of
            (Inl e, s') \<Rightarrow> (Inl e, s')
          | (Inr r, s') \<Rightarrow>
             (case unpack_II r of
                Inl e \<Rightarrow> (Inl e, s')
              | Inr ((retcode, flen), r1) \<Rightarrow>
                  if retcode \<noteq> 1 then (Inl DeviceRejectedError, s')
                  else
                    let r2 = (if size_buffer r1 = flen + 1 \<and> last (bdata r1) = 0x00
                              then r1\<lparr>bdata := butlast (bdata r1)\<rparr> else r1)
                    in if size_buffer r2 \<noteq> flen then (Inl LengthMismatchError, s')
                       else (Inr r2, s'))))"

text \<open>\<open>RadiaCode.write_request\<close>, with \<open>data or b''\<close> for the optional data.\<close>

definition write_request ::
  "device \<Rightarrow> int \<Rightarrow> bytes option \<Rightarrow> 'a link_scheme \<Rightarrow> (error + unit) \<times> 'a link_scheme" where
  "write_request dev command_id data s =
     (case pack_I command_id of
        Inl e \<Rightarrow> (Inl e, s)
      | Inr idb \<Rightarrow>
         (case execute dev [0x25, 0x08]
                 (Some (idb @ (case data of None \<Rightarrow> [] | Some d \<Rightarrow> d))) s of
            (Inl e, s') \<Rightarrow> (Inl e, s')
          | (Inr r, s') \<Rightarrow>
             (case unpack_I r of
                Inl e \<Rightarrow> (Inl e, s')
              | Inr (retcode, r1) \<Rightarrow>
                  if retcode \<noteq> 1 then (Inl DeviceRejectedError, s')
                  else if size_buffer r1 \<noteq> 0 then (Inl TrailingBytesError, s')
                  else (Inr (), s'))))"

text \<open>
  The generator \<open>struct.pack('<I', int(c)) for c in vsfr_ids\<close> joined into one payload,
  and the comprehension \<open>[r.unpack('<I')[0] for _ in range(n)]\<close>.
\<close>

fun pack_I_all :: "int list \<Rightarrow> error + bytes" where
  "pack_I_all [] = Inr []"
| "pack_I_all (c # cs) =
     (case pack_I c of
        Inl e \<Rightarrow> Inl e
      | Inr b \<Rightarrow> (case pack_I_all cs of Inl e \<Rightarrow> Inl e | Inr bs \<Rightarrow> Inr (b @ bs)))"

fun unpack_I_times :: "nat \<Rightarrow> BytesBuffer \<Rightarrow> error + int list \<times> BytesBuffer" where
  "unpack_I_times 0 r = Inr ([], r)"
| "unpack_I_times (Suc n) r =
     (case unpack_I r of
        Inl e \<Rightarrow> Inl e
      | Inr (v, r1) \<Rightarrow>
         (case unpack_I_times n r1 of
            Inl e \<Rightarrow> Inl e
          | Inr (vs, r2) \<Rightarrow> Inr (v # vs, r2)))"

text \<open>
  \<open>RadiaCode.batch_read_vsfrs\<close>. The argument is the list of \<open>int(c)\<close> of the
  requested registers.
\<close>

definition batch_read_vsfrs ::
  "device \<Rightarrow> int list \<Rightarrow> 'a link_scheme \<Rightarrow> (error + int list) \<times> 'a link_scheme" where
  "batch_read_vsfrs dev vsfr_ids s =
     (if length vsfr_ids = 0 then (Inl EmptyBatchError, s)
      else
        (case pack_I_all vsfr_ids of
           Inl e \<Rightarrow> (Inl e, s)
         | Inr payload \<Rightarrow>
            (case execute dev [0x2a, 0x08] (Some payload) s of
               (Inl e, s') \<Rightarrow> (Inl e, s')
             | (Inr r, s') \<Rightarrow>
                (case unpack_I_times (length vsfr_ids) r of
                   Inl e \<Rightarrow> (Inl e, s')
                 | Inr (ret, r1) \<Rightarrow>
                     if size_buffer r1 \<noteq> 0 then (Inl TrailingBytesError, s')
                     else (Inr ret, s')))))"

section \<open>Text, time and the enumerations\<close>

text \<open>
  Text. The driver decodes device bytes with the single-byte encodings \<open>ascii\<close> and
  \<open>cp1251\<close>, so a decoded character is represented by its code in that encoding: a
  \<open>char\<close>. \<open>bytes.decode('cp1251')\<close> raises \<open>UnicodeDecodeError\<close> on the one byte
  that cp1251 leaves undefined, \<open>0x98\<close>; \<open>bytes.decode('ascii')\<close> on every byte from
  \<open>0x80\<close> on.
\<close>

definition char_of_byte :: "byte \<Rightarrow> char" where
  "char_of_byte b = char_of (unat b)"

definition decode_cp1251 :: "bytes \<Rightarrow> error + string" where
  "decode_cp1251 bs =
     (if 0x98 \<in> set bs then Inl UnicodeDecodeError else Inr (map char_of_byte bs))"

definition decode_ascii :: "bytes \<Rightarrow> error + string" where
  "decode_ascii bs =
     (if list_ex (\<lambda>b. 0x80 \<le> b) bs then Inl UnicodeDecodeError else Inr (map char_of_byte bs))"

text \<open>\<open>str.split(sep)\<close> for a separator of one character, and \<open>str.startswith\<close>.\<close>

fun split_on :: "char \<Rightarrow> string \<Rightarrow> string list" where
  "split_on sep [] = [[]]"
| "split_on sep (c # cs) =
     (if c = sep then [] # split_on sep cs
      else (case split_on sep cs of [] \<Rightarrow> [[c]] | w # ws \<Rightarrow> (c # w) # ws))"

definition startswith :: "string \<Rightarrow> string \<Rightarrow> bool" where
  "startswith line pre = (take (length pre) line = pre)"

text \<open>\<open>str.strip('\x00')\<close>.\<close>

definition strip_nul :: "string \<Rightarrow> string" where
  "strip_nul t =
     rev (dropWhile (\<lambda>c. c = CHR 0x00) (rev (dropWhile (\<lambda>c. c = CHR 0x00) t)))"

text \<open>
  \<open>int(text)\<close> on decoded text: white space around the number is dropped (tab, line
  feed, vertical tab, form feed, carriage return, space and the no-break space, code
  \<open>0xA0\<close> in cp1251), then comes an optional sign and decimal digits, where single
  underscores may stand between digits; anything else raises \<open>ValueError\<close>. The
  interpreter's cap on the number of digits (\<open>sys.set_int_max_str_digits\<close>; 0 for no
  cap) is the first argument.
\<close>

definition int_space :: "char \<Rightarrow> bool" where
  "int_space c = (c \<in> set [CHR 0x09, CHR 0x0A, CHR 0x0B, CHR 0x0C, CHR 0x0D, CHR 0x20, CHR 0xA0])"

definition is_digit :: "char \<Rightarrow> bool" where
  "is_digit c = (48 \<le> (of_char c :: nat) \<and> (of_char c :: nat) \<le> 57)"

text \<open>Digits with single underscores between them; \<open>prev_digit\<close>: a digit came last.\<close>

fun digits_ok :: "bool \<Rightarrow> string \<Rightarrow> bool" where
  "digits_ok prev_digit [] = prev_digit"
| "digits_ok prev_digit (c # cs) =
     (if is_digit c then digits_ok True cs
      else if c = CHR ''_'' \<and> prev_digit then digits_ok False cs
      else False)"

definition digits_value :: "string \<Rightarrow> int" where
  "digits_value ds = foldl (\<lambda>a c. 10 * a + (of_char c - 48)) 0 ds"

definition py_int :: "nat \<Rightarrow> string \<Rightarrow> error + int" where
  "py_int max_str_digits t =
     (let u = rev (dropWhile int_space (rev (dropWhile int_space t)));
          neg = (u \<noteq> [] \<and> hd u = CHR ''-'');
          body = (if u \<noteq> [] \<and> (hd u = CHR ''-'' \<or> hd u = CHR ''+'') then tl u else u);
          ds = filter is_digit body
      in if \<not> digits_ok False body then Inl ValueError
         else if 0 < max_str_digits \<and> max_str_digits < length ds then Inl ValueError
         else Inr (if neg then - digits_value ds else digits_value ds))"

text \<open>The fields of a \<open>datetime.datetime\<close> that the driver reads.\<close>

record datetime =
  year :: int
  month :: int
  day :: int
  hour :: int
  minute :: int
  second :: int

text \<open>
  The members of the enumerations \<open>VS\<close> and \<open>VSFR\<close> that the driver names. The module
  \<open>radiacode.types\<close> that gives them their integer codes is not part of the sources at
  hand, so \<open>int(member)\<close> is a parameter (below, in the environment). A member of
  \<open>CTRL\<close> or \<open>DisplayDirection\<close> is represented by its code.
\<close>

datatype VS = CONFIGURATION | TEXT_MESSAGE | DATA_BUF | SPECTRUM | SPEC_ACCUM | ENERGY_CALIB

datatype VSFR =
    DEVICE_TIME | DOSE_RESET | DEVICE_LANG | DEVICE_ON | SOUND_ON | SOUND_CTRL
  | DISP_OFF_TIME | DISP_BRT | DISP_DIR | VIBRO_CTRL

text \<open>
  Everything the driver takes from outside its own source: the device behind the
  transport, the codes of the enumerations, the two decoders of
  \<open>radiacode.decoders\<close> (not part of the sources at hand; they receive the buffer and
  one attribute of the session and cannot touch the session), the conversion between
  Python floats and their 4-byte \<open>'<f'\<close> encoding, and the interpreter's digit cap.
\<close>

record ('r, 'sp, 'f) env =
  device :: device
  int_VS :: "VS \<Rightarrow> int"
  int_VSFR :: "VSFR \<Rightarrow> int"
  CTRL_CLICKS :: int
  decode_VS_DATA_BUF :: "BytesBuffer \<Rightarrow> datetime \<Rightarrow> error + 'r"
  decode_RC_VS_SPECTRUM :: "BytesBuffer \<Rightarrow> int \<Rightarrow> error + 'sp"
  pack_f :: "'f \<Rightarrow> error + bytes"
  unpack_f :: "bytes \<Rightarrow> 'f"
  int_max_str_digits :: nat

text \<open>
  A \<open>RadiaCode\<close> object once \<open>__init__\<close> has set all attributes.
\<close>

record RadiaCode = link +
  base_time :: datetime
  spectrum_format_version :: int

section \<open>The device facade\<close>

text \<open>
  Sequencing. \<open>bind_err\<close> passes an exception on; \<open>after\<close> decodes the buffer that a
  transport call returned, leaving the session as that call left it: every method
  below makes one transport call and then only reads the returned buffer.
\<close>

definition bind_err :: "error + 'a \<Rightarrow> ('a \<Rightarrow> error + 'b) \<Rightarrow> error + 'b" where
  "bind_err m f = (case m of Inl e \<Rightarrow> Inl e | Inr x \<Rightarrow> f x)"

definition after :: "(error + 'a) \<times> 's \<Rightarrow> ('a \<Rightarrow> error + 'b) \<Rightarrow> (error + 'b) \<times> 's" where
  "after m f = (case m of (Inl e, s') \<Rightarrow> (Inl e, s') | (Inr x, s') \<Rightarrow> (f x, s'))"

text \<open>
  Modelled from the spec: \<open>BytesBuffer.unpack_string\<close>, of the class whose source is
  missing: a 1-byte length, that many bytes, returned as text with trailing NUL
  padding trimmed (specification 4.1).
\<close>

definition unpack_string :: "BytesBuffer \<Rightarrow> error + string \<times> BytesBuffer" where
  "unpack_string r =
     bind_err (unpack_B r) (\<lambda>(slen, r1).
     bind_err (unpack_s (nat slen) r1) (\<lambda>(bs, r2).
       Inr (rev (dropWhile (\<lambda>c. c = CHR 0x00) (rev (map char_of_byte bs))), r2)))"

text \<open>\<open>struct.pack('<BBBBBBBB', ...)\<close>: one byte for each value.\<close>

fun pack_B_all :: "int list \<Rightarrow> error + bytes" where
  "pack_B_all [] = Inr []"
| "pack_B_all (c # cs) =
     bind_err (pack_B c) (\<lambda>b. bind_err (pack_B_all cs) (\<lambda>bs. Inr (b @ bs)))"

text \<open>The call shape \<open>self.write_request(reg, struct.pack('<I', v))\<close> of the setters.\<close>

definition write_request_I ::
  "device \<Rightarrow> int \<Rightarrow> int \<Rightarrow> 'a link_scheme \<Rightarrow> (error + unit) \<times> 'a link_scheme" where
  "write_request_I dev command_id v s =
     (case pack_I v of
        Inl e \<Rightarrow> (Inl e, s)
      | Inr d \<Rightarrow> write_request dev command_id (Some d) s)"

text \<open>\<open>status\<close>; the result is the flags that the method formats into its text.\<close>

definition status :: "('r, 'sp, 'f) env \<Rightarrow> 'a link_scheme \<Rightarrow> (error + int) \<times> 'a link_scheme" where
  "status E s =
     after (execute (device E) [0x05, 0x00] None s) (\<lambda>r.
       bind_err (unpack_I r) (\<lambda>(flags, r1).
         if size_buffer r1 \<noteq> 0 then Inl TrailingBytesError else Inr flags))"

definition set_local_time ::
  "('r, 'sp, 'f) env \<Rightarrow> datetime \<Rightarrow> 'a link_scheme \<Rightarrow> (error + unit) \<times> 'a link_scheme" where
  "set_local_time E dt s =
     (case pack_B_all [day dt, month dt, year dt - 2000, 0, second dt, minute dt, hour dt, 0] of
        Inl e \<Rightarrow> (Inl e, s)
      | Inr d \<Rightarrow> after (execute (device E) [0x04, 0x0a] (Some d) s) (\<lambda>r. Inr ()))"

text \<open>\<open>fw_signature\<close>; the result is the three values that the method formats.\<close>

definition fw_signature ::
  "('r, 'sp, 'f) env \<Rightarrow> 'a link_scheme
     \<Rightarrow> (error + int \<times> string \<times> string) \<times> 'a link_scheme" where
  "fw_signature E s =
     after (execute (device E) [0x01, 0x01] None s) (\<lambda>r.
       bind_err (unpack_I r) (\<lambda>(signature, r1).
       bind_err (unpack_string r1) (\<lambda>(filename, r2).
       bind_err (unpack_string r2) (\<lambda>(idstring, r3).
         Inr (signature, filename, idstring)))))"

definition fw_version ::
  "('r, 'sp, 'f) env \<Rightarrow> 'a link_scheme
     \<Rightarrow> (error + (int \<times> int \<times> string) \<times> (int \<times> int \<times> string)) \<times> 'a link_scheme" where
  "fw_version E s =
     after (execute (device E) [0x0a, 0x00] None s) (\<lambda>r.
       bind_err (unpack_HH r) (\<lambda>((boot_minor, boot_major), r1).
       bind_err (unpack_string r1) (\<lambda>(boot_date, r2).
       bind_err (unpack_HH r2) (\<lambda>((target_minor, target_major), r3).
       bind_err (unpack_string r3) (\<lambda>(target_date, r4).
         if size_buffer r4 \<noteq> 0 then Inl TrailingBytesError
         else Inr ((boot_major, boot_minor, boot_date),
                   (target_major, target_minor, strip_nul target_date)))))))"

text \<open>\<open>hw_serial_number\<close>; the result is the groups that the method joins as hex.\<close>

definition hw_serial_number ::
  "('r, 'sp, 'f) env \<Rightarrow> 'a link_scheme \<Rightarrow> (error + int list) \<times> 'a link_scheme" where
  "hw_serial_number E s =
     after (execute (device E) [0x0b, 0x00] None s) (\<lambda>r.
       bind_err (unpack_I r) (\<lambda>(serial_len, r1).
         if serial_len mod 4 \<noteq> 0 then Inl SerialLengthError
         else bind_err (unpack_I_times (nat (serial_len div 4)) r1) (\<lambda>(serial_groups, r2).
                if size_buffer r2 \<noteq> 0 then Inl TrailingBytesError else Inr serial_groups)))"

definition configuration ::
  "('r, 'sp, 'f) env \<Rightarrow> 'a link_scheme \<Rightarrow> (error + string) \<times> 'a link_scheme" where
  "configuration E s =
     after (read_request (device E) (int_VS E CONFIGURATION) s)
       (\<lambda>r. decode_cp1251 (data_buffer r))"

definition text_message ::
  "('r, 'sp, 'f) env \<Rightarrow> 'a link_scheme \<Rightarrow> (error + string) \<times> 'a link_scheme" where
  "text_message E s =
     after (read_request (device E) (int_VS E TEXT_MESSAGE) s)
       (\<lambda>r. decode_ascii (data_buffer r))"

definition serial_number ::
  "('r, 'sp, 'f) env \<Rightarrow> 'a link_scheme \<Rightarrow> (error + string) \<times> 'a link_scheme" where
  "serial_number E s =
     after (read_request (device E) 8 s) (\<lambda>r. decode_ascii (data_buffer r))"

definition commands ::
  "('r, 'sp, 'f) env \<Rightarrow> 'a link_scheme \<Rightarrow> (error + string) \<times> 'a link_scheme" where
  "commands E s =
     after (read_request (device E) 257 s) (\<lambda>br. decode_ascii (data_buffer br))"

definition device_time ::
  "('r, 'sp, 'f) env \<Rightarrow> int \<Rightarrow> 'a link_scheme \<Rightarrow> (error + unit) \<times> 'a link_scheme" where
  "device_time E v s = write_request_I (device E) (int_VSFR E DEVICE_TIME) v s"

definition data_buf ::
  "('r, 'sp, 'f) env \<Rightarrow> 'a RadiaCode_scheme \<Rightarrow> (error + 'r) \<times> 'a RadiaCode_scheme" where
  "data_buf E s =
     after (read_request (device E) (int_VS E DATA_BUF) s)
       (\<lambda>r. decode_VS_DATA_BUF E r (base_time s))"

definition spectrum ::
  "('r, 'sp, 'f) env \<Rightarrow> 'a RadiaCode_scheme \<Rightarrow> (error + 'sp) \<times> 'a RadiaCode_scheme" where
  "spectrum E s =
     after (read_request (device E) (int_VS E SPECTRUM) s)
       (\<lambda>r. decode_RC_VS_SPECTRUM E r (spectrum_format_version s))"

definition spectrum_accum ::
  "('r, 'sp, 'f) env \<Rightarrow> 'a RadiaCode_scheme \<Rightarrow> (error + 'sp) \<times> 'a RadiaCode_scheme" where
  "spectrum_accum E s =
     after (read_request (device E) (int_VS E SPEC_ACCUM) s)
       (\<lambda>r. decode_RC_VS_SPECTRUM E r (spectrum_format_version s))"

definition dose_reset ::
  "('r, 'sp, 'f) env \<Rightarrow> 'a link_scheme \<Rightarrow> (error + unit) \<times> 'a link_scheme" where
  "dose_reset E s = write_request (device E) (int_VSFR E DOSE_RESET) None s"

definition spectrum_reset ::
  "('r, 'sp, 'f) env \<Rightarrow> 'a link_scheme \<Rightarrow> (error + unit) \<times> 'a link_scheme" where
  "spectrum_reset E s =
     (case pack_I_all [int_VS E SPECTRUM, 0] of
        Inl e \<Rightarrow> (Inl e, s)
      | Inr d \<Rightarrow>
          after (execute (device E) [0x27, 0x08] (Some d) s) (\<lambda>r.
            bind_err (unpack_I r) (\<lambda>(retcode, r1).
              if retcode \<noteq> 1 then Inl DeviceRejectedError
              else if size_buffer r1 \<noteq> 0 then Inl TrailingBytesError
              else Inr ())))"

text \<open>\<open>energy_calib\<close>: \<open>list(r.unpack('<fff'))\<close>, three floats of four bytes each.\<close>

definition energy_calib ::
  "('r, 'sp, 'f) env \<Rightarrow> 'a link_scheme \<Rightarrow> (error + 'f list) \<times> 'a link_scheme" where
  "energy_calib E s =
     after (read_request (device E) (int_VS E ENERGY_CALIB) s) (\<lambda>r.
       bind_err (unpack_s 12 r) (\<lambda>(bs, r1).
         Inr [unpack_f E (take 4 bs), unpack_f E (take 4 (drop 4 bs)), unpack_f E (drop 8 bs)]))"

fun pack_f_all :: "('r, 'sp, 'f) env \<Rightarrow> 'f list \<Rightarrow> error + bytes" where
  "pack_f_all E [] = Inr []"
| "pack_f_all E (c # cs) =
     bind_err (pack_f E c) (\<lambda>b. bind_err (pack_f_all E cs) (\<lambda>bs. Inr (b @ bs)))"

definition set_energy_calib ::
  "('r, 'sp, 'f) env \<Rightarrow> 'f list \<Rightarrow> 'a link_scheme \<Rightarrow> (error + unit) \<times> 'a link_scheme" where
  "set_energy_calib E coef s =
     (if length coef \<noteq> 3 then (Inl ArgumentError, s)
      else
        (case pack_f_all E coef of
           Inl e \<Rightarrow> (Inl e, s)
         | Inr pc \<Rightarrow>
            (case pack_I_all [int_VS E ENERGY_CALIB, int (length pc)] of
               Inl e \<Rightarrow> (Inl e, s)
             | Inr h \<Rightarrow>
                 after (execute (device E) [0x27, 0x08] (Some (h @ pc)) s) (\<lambda>r.
                   bind_err (unpack_I r) (\<lambda>(retcode, r1).
                     if retcode \<noteq> 1 then Inl DeviceRejectedError else Inr ())))))"

text \<open>The setters. \<open>bool(x)\<close> packs as 1 or 0.\<close>

definition set_language ::
  "('r, 'sp, 'f) env \<Rightarrow> string \<Rightarrow> 'a link_scheme \<Rightarrow> (error + unit) \<times> 'a link_scheme" where
  "set_language E lang s =
     (if lang \<notin> {''ru'', ''en''} then (Inl ArgumentError, s)
      else write_request_I (device E) (int_VSFR E DEVICE_LANG)
             (if lang = ''en'' then 1 else 0) s)"

definition set_device_on ::
  "('r, 'sp, 'f) env \<Rightarrow> bool \<Rightarrow> 'a link_scheme \<Rightarrow> (error + unit) \<times> 'a link_scheme" where
  "set_device_on E on s =
     (if on then (Inl ArgumentError, s)
      else write_request_I (device E) (int_VSFR E DEVICE_ON) (if on then 1 else 0) s)"

definition set_sound_on ::
  "('r, 'sp, 'f) env \<Rightarrow> bool \<Rightarrow> 'a link_scheme \<Rightarrow> (error + unit) \<times> 'a link_scheme" where
  "set_sound_on E on s =
     write_request_I (device E) (int_VSFR E SOUND_ON) (if on then 1 else 0) s"

definition set_vibro_on ::
  "('r, 'sp, 'f) env \<Rightarrow> bool \<Rightarrow> 'a link_scheme \<Rightarrow> (error + unit) \<times> 'a link_scheme" where
  "set_vibro_on E on s =
     write_request_I (device E) (int_VSFR E SOUND_ON) (if on then 1 else 0) s"

definition set_sound_ctrl ::
  "('r, 'sp, 'f) env \<Rightarrow> int list \<Rightarrow> 'a link_scheme \<Rightarrow> (error + unit) \<times> 'a link_scheme" where
  "set_sound_ctrl E ctrls s =
     write_request_I (device E) (int_VSFR E SOUND_CTRL) (foldl (\<lambda>flags c. flags OR c) 0 ctrls) s"

definition set_display_off_time ::
  "('r, 'sp, 'f) env \<Rightarrow> int \<Rightarrow> 'a link_scheme \<Rightarrow> (error + unit) \<times> 'a link_scheme" where
  "set_display_off_time E seconds s =
     (if seconds \<notin> {5, 10, 15, 30} then (Inl ArgumentError, s)
      else write_request_I (device E) (int_VSFR E DISP_OFF_TIME)
             (if seconds = 30 then 3 else seconds div 5 - 1) s)"

definition set_display_brightness ::
  "('r, 'sp, 'f) env \<Rightarrow> int \<Rightarrow> 'a link_scheme \<Rightarrow> (error + unit) \<times> 'a link_scheme" where
  "set_display_brightness E brightness s =
     (if \<not> (0 \<le> brightness \<and> brightness \<le> 9) then (Inl ArgumentError, s)
      else write_request_I (device E) (int_VSFR E DISP_BRT) brightness s)"

text \<open>
  \<open>set_display_direction\<close>: the argument is a \<open>DisplayDirection\<close>, given by its code, so
  the \<open>isinstance\<close> assertion holds by the type.
\<close>

definition set_display_direction ::
  "('r, 'sp, 'f) env \<Rightarrow> int \<Rightarrow> 'a link_scheme \<Rightarrow> (error + unit) \<times> 'a link_scheme" where
  "set_display_direction E direction s =
     write_request_I (device E) (int_VSFR E DISP_DIR) direction s"

fun vibro_flags :: "int \<Rightarrow> int \<Rightarrow> int list \<Rightarrow> error + int" where
  "vibro_flags clicks flags [] = Inr flags"
| "vibro_flags clicks flags (c # cs) =
     (if c = clicks then Inl ArgumentError else vibro_flags clicks (flags OR c) cs)"

definition set_vibro_ctrl ::
  "('r, 'sp, 'f) env \<Rightarrow> int list \<Rightarrow> 'a link_scheme \<Rightarrow> (error + unit) \<times> 'a link_scheme" where
  "set_vibro_ctrl E ctrls s =
     (case vibro_flags (CTRL_CLICKS E) 0 ctrls of
        Inl e \<Rightarrow> (Inl e, s)
      | Inr flags \<Rightarrow> write_request_I (device E) (int_VSFR E VIBRO_CTRL) flags s)"

section \<open>Initialization\<close>

text \<open>
  The condition of the \<open>if\<close> that guards the firmware exception, as Python parses it:
  \<open>and\<close> binds tighter than \<open>or\<close>.
\<close>

definition firmware_incompatible :: "bool \<Rightarrow> int \<Rightarrow> int \<Rightarrow> bool" where
  "firmware_incompatible ignore_firmware_compatibility_check vmaj vmin =
     ((ignore_firmware_compatibility_check = False \<and> vmaj < 4) \<or> (vmaj = 4 \<and> vmin < 8))"

text \<open>
  The loop over the lines of the configuration text: the first line that starts with
  \<open>SpecFormatVersion\<close> decides and ends the loop; \<open>line.split('=')[1]\<close> raises
  \<open>IndexError\<close> when the line has no \<open>=\<close>. Without such a line the version stays 0.
\<close>

fun scan_config :: "nat \<Rightarrow> string list \<Rightarrow> error + int" where
  "scan_config m [] = Inr 0"
| "scan_config m (line # rest) =
     (if startswith line ''SpecFormatVersion''
      then (case split_on (CHR ''='') line of
              f0 # f1 # fs \<Rightarrow> py_int m f1
            | _ \<Rightarrow> Inl IndexError)
      else scan_config m rest)"

text \<open>The session as \<open>__init__\<close> has it before its first exchange.\<close>

definition new_link :: link where
  "new_link = \<lparr>seq = 0, connection = []\<rparr>"

text \<open>
  \<open>RadiaCode.__init__\<close>. The host clock \<open>datetime.datetime.now()\<close> is the argument
  \<open>now\<close>; the choice between the two transports is inside the device parameter. When a
  step raises, no object is made.
\<close>

definition init :: "('r, 'sp, 'f) env \<Rightarrow> datetime \<Rightarrow> bool \<Rightarrow> error + RadiaCode" where
  "init E now ignore_firmware_compatibility_check =
     (case execute (device E) [0x07, 0x00] (Some [0x01, 0xff, 0x12, 0xff]) new_link of
        (Inl e, s1) \<Rightarrow> Inl e
      | (Inr r, s1) \<Rightarrow>
     (case set_local_time E now s1 of
        (Inl e, s2) \<Rightarrow> Inl e
      | (Inr u, s2) \<Rightarrow>
     (case device_time E 0 s2 of
        (Inl e, s3) \<Rightarrow> Inl e
      | (Inr u, s3) \<Rightarrow>
     (case fw_version E s3 of
        (Inl e, s4) \<Rightarrow> Inl e
      | (Inr (boot, (vmaj, vmin, vdate)), s4) \<Rightarrow>
          if firmware_incompatible ignore_firmware_compatibility_check vmaj vmin
          then Inl IncompatibleFirmwareError
          else
            (case configuration E s4 of
               (Inl e, s5) \<Rightarrow> Inl e
             | (Inr text, s5) \<Rightarrow>
                (case scan_config (int_max_str_digits E) (split_on (CHR 0x0A) text) of
                   Inl e \<Rightarrow> Inl e
                 | Inr v \<Rightarrow>
                     Inr \<lparr>seq = seq s5, connection = connection s5,
                          base_time = now, spectrum_format_version = v\<rparr>))))))"

section \<open>The session as a state machine\<close>

text \<open>
  The public methods of the class as calls, and the session that a call leaves behind,
  whether it returns or raises. \<open>base_time\<close> only reads an attribute.
\<close>

datatype 'f call =
    Execute bytes "bytes option"
  | Read_request int
  | Write_request int "bytes option"
  | Batch_read_vsfrs "int list"
  | Base_time
  | Status
  | Set_local_time datetime
  | Fw_signature
  | Fw_version
  | Hw_serial_number
  | Configuration
  | Text_message
  | Serial_number
  | Commands
  | Device_time int
  | Data_buf
  | Spectrum
  | Spectrum_accum
  | Dose_reset
  | Spectrum_reset
  | Energy_calib
  | Set_energy_calib "'f list"
  | Set_language string
  | Set_device_on bool
  | Set_sound_on bool
  | Set_vibro_on bool
  | Set_sound_ctrl "int list"
  | Set_display_off_time int
  | Set_display_brightness int
  | Set_display_direction int
  | Set_vibro_ctrl "int list"

fun run :: "('r, 'sp, 'f) env \<Rightarrow> 'f call \<Rightarrow> RadiaCode \<Rightarrow> RadiaCode" where
  "run E (Execute reqtype args) s = snd (execute (device E) reqtype args s)"
| "run E (Read_request command_id) s = snd (read_request (device E) command_id s)"
| "run E (Write_request command_id data) s = snd (write_request (device E) command_id data s)"
| "run E (Batch_read_vsfrs vsfr_ids) s = snd (batch_read_vsfrs (device E) vsfr_ids s)"
| "run E Base_time s = s"
| "run E Status s = snd (status E s)"
| "run E (Set_local_time dt) s = snd (set_local_time E dt s)"
| "run E Fw_signature s = snd (fw_signature E s)"
| "run E Fw_version s = snd (fw_version E s)"
| "run E Hw_serial_number s = snd (hw_serial_number E s)"
| "run E Configuration s = snd (configuration E s)"
| "run E Text_message s = snd (text_message E s)"
| "run E Serial_number s = snd (serial_number E s)"
| "run E Commands s = snd (commands E s)"
| "run E (Device_time v) s = snd (device_time E v s)"
| "run E Data_buf s = snd (data_buf E s)"
| "run E Spectrum s = snd (spectrum E s)"
| "run E Spectrum_accum s = snd (spectrum_accum E s)"
| "run E Dose_reset s = snd (dose_reset E s)"
| "run E Spectrum_reset s = snd (spectrum_reset E s)"
| "run E Energy_calib s = snd (energy_calib E s)"
| "run E (Set_energy_calib coef) s = snd (set_energy_calib E coef s)"
| "run E (Set_language lang) s = snd (set_language E lang s)"
| "run E (Set_device_on on) s = snd (set_device_on E on s)"
| "run E (Set_sound_on on) s = snd (set_sound_on E on s)"
| "run E (Set_vibro_on on) s = snd (set_vibro_on E on s)"
| "run E (Set_sound_ctrl ctrls) s = snd (set_sound_ctrl E ctrls s)"
| "run E (Set_display_off_time seconds) s = snd (set_display_off_time E seconds s)"
| "run E (Set_display_brightness brightness) s = snd (set_display_brightness E brightness s)"
| "run E (Set_display_direction direction) s = snd (set_display_direction E direction s)"
| "run E (Set_vibro_ctrl ctrls) s = snd (set_vibro_ctrl E ctrls s)"

text \<open>The sessions that exist: made by \<open>__init__\<close>, then changed by calls only.\<close>

inductive reachable :: "('r, 'sp, 'f) env \<Rightarrow> RadiaCode \<Rightarrow> bool" for E where
  reachable_init: "init E now ignore = Inr s \<Longrightarrow> reachable E s"
| reachable_run: "reachable E s \<Longrightarrow> reachable E (run E c s)"

section \<open>The sequence counter\<close>

text \<open>
  The range of the counter, and the two things a call can do to it: leave it or
  advance it by one modulo 32.
\<close>

definition seq_in_range :: "'a link_scheme \<Rightarrow> bool" where
  "seq_in_range s = (0 \<le> seq s \<and> seq s < 32)"

definition stepped :: "'a link_scheme \<Rightarrow> 'a link_scheme \<Rightarrow> bool" where
  "stepped s s' = (seq s' = seq s \<or> seq s' = (seq s + 1) mod 32)"

section \<open>The wire format as the specification words it\<close>

text \<open>
  The request header and the request of the specification (6): the 2-byte opcode, the
  reserved byte \<open>0x00\<close> and the byte \<open>0x80 | seq\<close>; before them the length of header
  and payload as 4 little-endian bytes. \<open>args_or_empty\<close> is the payload of a call
  whose argument is optional.
\<close>

definition args_or_empty :: "bytes option \<Rightarrow> bytes" where
  "args_or_empty args = (case args of None \<Rightarrow> [] | Some a \<Rightarrow> a)"

definition wire_header :: "bytes \<Rightarrow> int \<Rightarrow> bytes" where
  "wire_header opcode counter = opcode @ [0x00, 0x80 OR word_of_int counter]"

definition wire_request :: "bytes \<Rightarrow> int \<Rightarrow> bytes \<Rightarrow> bytes" where
  "wire_request opcode counter payload =
     le_bytes 4 (int (length (wire_header opcode counter @ payload)))
       @ wire_header opcode counter @ payload"

section \<open>The configuration field as the specification words it\<close>

text \<open>
  The text after the first \<open>=\<close> of a line; like the second element of
  \<open>line.split('=')\<close> it ends at the next \<open>=\<close> or at the end of the line. And the
  session in which \<open>__init__\<close> reads the configuration: the one left by its first four
  steps.
\<close>

definition field_after_first_eq :: "string \<Rightarrow> string" where
  "field_after_first_eq line =
     takeWhile (\<lambda>c. c \<noteq> CHR ''='') (tl (dropWhile (\<lambda>c. c \<noteq> CHR ''='') line))"

definition session_before_configuration :: "('r, 'sp, 'f) env \<Rightarrow> datetime \<Rightarrow> link" where
  "session_before_configuration E now =
     snd (fw_version E
       (snd (device_time E 0
         (snd (set_local_time E now
           (snd (execute (device E) [0x07, 0x00] (Some [0x01, 0xff, 0x12, 0xff]) new_link)))))))"

text \<open>
  An integer as it is written in the configuration text: the decimal numeral of a
  natural number, most significant digit first.
\<close>

fun decimal :: "nat \<Rightarrow> string" where
  "decimal n =
     (if n < 10 then [char_of (48 + n)]
      else decimal (n div 10) @ [char_of (48 + n mod 10)])"

section \<open>Devices for concrete runs\<close>

text \<open>
  A device that echoes the header of every request and answers with return code 1.
\<close>

definition echo_device :: device where
  "echo_device hist req = take 4 (drop 4 req) @ [1, 0, 0, 0]"

text \<open>
  A device that completes the exchanges of \<open>__init__\<close>: it echoes the header of every
  request; asked for the firmware version (opcode \<open>0a 00\<close>) it reports boot version
  4.0 and the target version given, both with an empty date; asked to read a register
  (opcode \<open>26 08\<close>) it returns the configuration bytes given, with their length
  declared; everything else it answers with return code 1.
\<close>

definition fw_device :: "int \<Rightarrow> int \<Rightarrow> bytes \<Rightarrow> device" where
  "fw_device vmaj vmin cfg hist req =
     (let hdr = take 4 (drop 4 req)
      in if take 2 hdr = [0x0a, 0x00]
         then hdr @ [0, 0, 4, 0] @ [0] @ le_bytes 2 vmin @ le_bytes 2 vmaj @ [0]
         else if take 2 hdr = [0x26, 0x08]
         then hdr @ le_bytes 4 1 @ le_bytes 4 (int (length cfg)) @ cfg
         else hdr @ [1, 0, 0, 0])"

text \<open>
  An environment around a device, with sample codes for the enumerations, decoders
  that return nothing, floats left out and no digit cap.
\<close>

fun sample_int_VS :: "VS \<Rightarrow> int" where
  "sample_int_VS CONFIGURATION = 0x2"
| "sample_int_VS TEXT_MESSAGE = 0xf"
| "sample_int_VS DATA_BUF = 0x100"
| "sample_int_VS SPECTRUM = 0x200"
| "sample_int_VS ENERGY_CALIB = 0x202"
| "sample_int_VS SPEC_ACCUM = 0x205"

fun sample_int_VSFR :: "VSFR \<Rightarrow> int" where
  "sample_int_VSFR DEVICE_LANG = 0x0502"
| "sample_int_VSFR DEVICE_ON = 0x0503"
| "sample_int_VSFR DEVICE_TIME = 0x0504"
| "sample_int_VSFR DISP_BRT = 0x0511"
| "sample_int_VSFR DISP_OFF_TIME = 0x0513"
| "sample_int_VSFR DISP_DIR = 0x0515"
| "sample_int_VSFR SOUND_CTRL = 0x0520"
| "sample_int_VSFR SOUND_ON = 0x0522"
| "sample_int_VSFR VIBRO_CTRL = 0x0530"
| "sample_int_VSFR DOSE_RESET = 0x8007"

definition sample_env :: "device \<Rightarrow> (unit, unit, unit) env" where
  "sample_env dev =
     \<lparr>device = dev, int_VS = sample_int_VS, int_VSFR = sample_int_VSFR, CTRL_CLICKS = 0x02,
      decode_VS_DATA_BUF = (\<lambda>r t. Inr ()), decode_RC_VS_SPECTRUM = (\<lambda>r v. Inr ()),
      pack_f = (\<lambda>x. Inr [0, 0, 0, 0]), unpack_f = (\<lambda>bs. ()), int_max_str_digits = 0\<rparr>"

definition sample_now :: datetime where
  "sample_now = \<lparr>year = 2024, month = 5, day = 17, hour = 13, minute = 45, second = 30\<rparr>"

text \<open>The configuration text \<open>DeviceName=RC\nSpecFormatVersion=1\n\<close> in cp1251.\<close>

definition sample_cfg :: bytes where
  "sample_cfg =
     [0x44, 0x65, 0x76, 0x69, 0x63, 0x65, 0x4e, 0x61, 0x6d, 0x65, 0x3d, 0x52, 0x43, 0x0a,
      0x53, 0x70, 0x65, 0x63, 0x46, 0x6f, 0x72, 0x6d, 0x61, 0x74, 0x56, 0x65, 0x72, 0x73,
      0x69, 0x6f, 0x6e, 0x3d, 0x31, 0x0a]"

text \<open>The session that \<open>__init__\<close> makes with this device reporting firmware 4.8.\<close>

definition sample_session :: RadiaCode where
  "sample_session =
     \<lparr>seq = 5,
      connection =
        [[8, 0, 0, 0, 7, 0, 0, 128, 1, 255, 18, 255],
         [12, 0, 0, 0, 4, 10, 0, 129, 17, 5, 24, 0, 30, 45, 13, 0],
         [12, 0, 0, 0, 37, 8, 0, 130, 4, 5, 0, 0, 0, 0, 0, 0],
         [4, 0, 0, 0, 10, 0, 0, 131],
         [8, 0, 0, 0, 38, 8, 0, 132, 2, 0, 0, 0]],
      base_time = sample_now, spectrum_format_version = 1\<rparr>"

text \<open>
  Two devices that answer a register read with return code 1, declared length 2 and
  three bytes of payload: the last one zero, and the last one not zero.
\<close>

definition trailing_zero_device :: device where
  "trailing_zero_device hist req =
     [0x26, 0x08, 0, 0x80, 1, 0, 0, 0, 2, 0, 0, 0, 0xAA, 0xBB, 0x00]"

definition trailing_one_device :: device where
  "trailing_one_device hist req =
     [0x26, 0x08, 0, 0x80, 1, 0, 0, 0, 2, 0, 0, 0, 0xAA, 0xBB, 0x01]"

text \<open>A device that answers a batch read of two registers with the values 1 and 2.\<close>

definition batch_device :: device where
  "batch_device hist req = [0x2a, 0x08, 0, 0x80, 1, 0, 0, 0, 2, 0, 0, 0]"

text \<open>A format in which every real number is a float: nothing is rounded.\<close>

definition no_rounding :: "real \<Rightarrow> pyfloat" where
  "no_rounding x = Fin x"

section \<open>The codec\<close>

lemma length_le_bytes [simp]: "length (le_bytes n v) = n"
  by (induction n arbitrary: v) simp_all

lemma le_int_le_bytes: "0 \<le> v \<Longrightarrow> v < 2 ^ (8 * n) \<Longrightarrow> le_int (le_bytes n v) = v"
proof (induction n arbitrary: v)
  case 0
  then show ?case by simp
next
  case (Suc n)
  have "v div 256 < 2 ^ (8 * n)"
  proof -
    have "v < 256 * 2 ^ (8 * n)" using Suc.prems by (simp add: power_add)
    then show ?thesis by (simp add: div_less_iff_less_mult mult.commute)
  qed
  moreover have "0 \<le> v div 256" using Suc.prems by simp
  ultimately have "le_int (le_bytes n (v div 256)) = v div 256" by (rule Suc.IH[rotated])
  then show ?case by (simp add: uint_word_of_int)
qed

text \<open>For a counter in range, adding \<open>0x80\<close> sets the top bit.\<close>

lemma seq_byte:
  "0 \<le> q \<Longrightarrow> q < 32 \<Longrightarrow> (word_of_int (128 + q) :: byte) = 128 OR word_of_int q"
proof -
  assume a: "0 \<le> q" "q < 32"
  then have "q \<in> set [0..31]" by simp
  then have "q \<in> {0,1,2,3,4,5,6,7,8,9,10,11,12,13,14,15,16,17,18,19,20,21,22,23,24,25,26,
      27,28,29,30,31}"
    by (simp add: upto.simps)
  then show ?thesis by auto
qed

section \<open>The framer\<close>

lemma unpack_s_new_buffer:
  "unpack_s n (new_buffer bs) =
     (if length bs < n then Inl UnderflowError else Inr (take n bs, \<lparr>bdata = bs, bpos = n\<rparr>))"
  by (auto simp: unpack_s_def new_buffer_def size_buffer_def)

text \<open>
  One exchange, for a 2-byte opcode, a counter in range and a request whose length fits
  the length prefix: what is sent, what comes back and the session afterwards.
\<close>

lemma execute_unfold:
  assumes "length reqtype = 2" "0 \<le> seq s" "seq s < 32"
    and "4 + int (length (args_or_empty args)) < 2 ^ 32"
  shows "execute dev reqtype args s =
     (let full = wire_request reqtype (seq s) (args_or_empty args);
          resp = dev (connection s) full
      in ((if length resp < 4 then Inl UnderflowError
           else if take 4 resp \<noteq> wire_header reqtype (seq s) then Inl ProtocolMismatchError
           else Inr \<lparr>bdata = resp, bpos = 4\<rparr>),
          s\<lparr>seq := (seq s + 1) mod 32, connection := connection s @ [full]\<rparr>))"
proof -
  have pb: "pack_B (0x80 + seq s) = Inr [0x80 OR word_of_int (seq s)]"
    using assms(2,3) seq_byte[of "seq s"] by (simp add: pack_B_def)
  have pi: "pack_I (int (length (reqtype @ [0] @ [0x80 OR word_of_int (seq s)] @ args_or_empty args)))
      = Inr (le_bytes 4 (int (length (wire_header reqtype (seq s) @ args_or_empty args))))"
    using assms(1,4) by (simp add: pack_I_def wire_header_def)
  show ?thesis
    using assms(1) pb pi
    by (simp add: execute_def Let_def connection_execute_def unpack_s_new_buffer
        wire_request_def wire_header_def args_or_empty_def[symmetric] eq_commute[of "take 4 _"])
qed

text \<open>
  C4. For every call of \<open>execute\<close> with a 2-byte opcode and a payload, the byte string
  handed to the transport is the 4-byte little-endian length of header and payload
  (the prefix itself not counted), the opcode, the reserved byte \<open>0x00\<close>, the byte
  \<open>0x80 | counter\<close> and the payload. The counter is in its range 0..31 and the length
  fits the four bytes of the prefix.
\<close>

theorem execute_sends_wire_request:
  assumes "length reqtype = 2" "0 \<le> seq s" "seq s < 32"
    and "payload = (case args of None \<Rightarrow> [] | Some a \<Rightarrow> a)"
    and "4 + int (length payload) < 2 ^ 32"
  shows "connection (snd (execute dev reqtype args s)) =
           connection s @
             [le_bytes 4 (4 + int (length payload))
                @ reqtype @ [0x00, 0x80 OR word_of_int (seq s)] @ payload]
         \<and> length (le_bytes 4 (4 + int (length payload))) = 4
         \<and> le_int (le_bytes 4 (4 + int (length payload)))
             = int (length (reqtype @ [0x00, 0x80 OR word_of_int (seq s)] @ payload))"
proof -
  have p: "payload = args_or_empty args" by (simp add: assms(4) args_or_empty_def)
  have "le_int (le_bytes 4 (4 + int (length payload))) = 4 + int (length payload)"
    using assms(5) by (intro le_int_le_bytes) simp_all
  then show ?thesis
    using assms(1,5) execute_unfold[OF assms(1-3), of args dev]
    by (simp add: p Let_def wire_request_def wire_header_def)
qed

theorem execute_sends_wire_request_witness:
  "length [7, 0 :: byte] = 2 \<and> (0::int) \<le> 3 \<and> (3::int) < 32
   \<and> 4 + int (length [1, 0xff, 0x12, 0xff :: byte]) < 2 ^ 32
   \<and> connection (snd (execute echo_device [7, 0] (Some [1, 0xff, 0x12, 0xff])
         \<lparr>seq = 3, connection = []\<rparr>))
     = [[8, 0, 0, 0, 7, 0, 0, 0x83, 1, 0xff, 0x12, 0xff]]"
  using execute_sends_wire_request[of "[7, 0]" "\<lparr>seq = 3, connection = []\<rparr>"
      "[1, 0xff, 0x12, 0xff]" "Some [1, 0xff, 0x12, 0xff]" echo_device]
  by (simp add: eval_nat_numeral)

section \<open>The sequence counter\<close>

lemma execute_seq:
  "seq (snd (execute dev reqtype args s)) = (if length reqtype = 2 then (seq s + 1) mod 32 else seq s)"
  by (simp add: execute_def Let_def connection_execute_def split: sum.splits prod.splits)

lemma snd_after [simp]: "snd (after m f) = snd m"
  by (simp add: after_def split: prod.splits sum.splits)

lemma stepped_refl [simp]: "stepped s s"
  by (simp add: stepped_def)

lemma execute_stepped [simp]: "stepped s (snd (execute dev reqtype args s))"
  by (simp add: stepped_def execute_seq)

lemma read_request_stepped [simp]: "stepped s (snd (read_request dev command_id s))"
proof (cases "pack_I command_id")
  case (Inl e)
  then show ?thesis by (simp add: read_request_def)
next
  case (Inr payload)
  have "snd (read_request dev command_id s) = snd (execute dev [0x26, 0x08] (Some payload) s)"
    by (simp add: read_request_def Inr Let_def split: sum.splits prod.splits)
  then show ?thesis by simp
qed

lemma write_request_stepped [simp]: "stepped s (snd (write_request dev command_id data s))"
proof (cases "pack_I command_id")
  case (Inl e)
  then show ?thesis by (simp add: write_request_def)
next
  case (Inr idb)
  have "snd (write_request dev command_id data s)
      = snd (execute dev [0x25, 0x08] (Some (idb @ (case data of None \<Rightarrow> [] | Some d \<Rightarrow> d))) s)"
    by (simp add: write_request_def Inr split: sum.splits prod.splits)
  then show ?thesis by simp
qed

lemma write_request_I_stepped [simp]: "stepped s (snd (write_request_I dev command_id v s))"
  by (simp add: write_request_I_def split: sum.splits)

lemma batch_read_vsfrs_stepped [simp]: "stepped s (snd (batch_read_vsfrs dev vsfr_ids s))"
proof (cases "pack_I_all vsfr_ids")
  case (Inl e)
  then show ?thesis by (simp add: batch_read_vsfrs_def)
next
  case (Inr payload)
  have "vsfr_ids \<noteq> [] \<Longrightarrow> snd (batch_read_vsfrs dev vsfr_ids s) = snd (execute dev [0x2a, 0x08] (Some payload) s)"
    by (simp add: batch_read_vsfrs_def Inr split: sum.splits prod.splits)
  then show ?thesis by (cases "vsfr_ids = []") (simp_all add: batch_read_vsfrs_def)
qed

lemma run_stepped: "stepped s (run E c s)"
  by (cases c)
    (simp_all add: status_def set_local_time_def fw_signature_def fw_version_def
      hw_serial_number_def configuration_def text_message_def serial_number_def commands_def
      device_time_def data_buf_def spectrum_def spectrum_accum_def dose_reset_def
      spectrum_reset_def energy_calib_def set_energy_calib_def set_language_def
      set_device_on_def set_sound_on_def set_vibro_on_def set_sound_ctrl_def
      set_display_off_time_def set_display_brightness_def set_display_direction_def
      set_vibro_ctrl_def split: sum.splits)

lemma stepped_in_range: "stepped s s' \<Longrightarrow> seq_in_range s \<Longrightarrow> seq_in_range s'"
  by (auto simp: stepped_def seq_in_range_def)

lemma new_link_in_range: "seq_in_range new_link"
  by (simp add: seq_in_range_def new_link_def)

lemma init_in_range:
  assumes "init E now ign = Inr rc"
  shows "seq_in_range rc"
proof -
  let ?s1 = "snd (execute (device E) [0x07, 0x00] (Some [0x01, 0xff, 0x12, 0xff]) new_link)"
  let ?s2 = "snd (set_local_time E now ?s1)"
  let ?s3 = "snd (device_time E 0 ?s2)"
  let ?s4 = "snd (fw_version E ?s3)"
  let ?s5 = "snd (configuration E ?s4)"
  have "seq rc = seq ?s5"
    using assms by (auto simp: init_def split: sum.splits prod.splits if_splits)
  moreover have "seq_in_range ?s1"
    by (rule stepped_in_range[OF execute_stepped new_link_in_range])
  then have "seq_in_range ?s2"
    by (rule stepped_in_range[rotated]) (simp add: set_local_time_def split: sum.splits)
  then have "seq_in_range ?s3"
    by (rule stepped_in_range[rotated]) (simp add: device_time_def)
  then have "seq_in_range ?s4"
    by (rule stepped_in_range[rotated]) (simp add: fw_version_def)
  then have "seq_in_range ?s5"
    by (rule stepped_in_range[rotated]) (simp add: configuration_def)
  ultimately show ?thesis by (simp add: seq_in_range_def)
qed

lemma reachable_in_range: "reachable E s \<Longrightarrow> seq_in_range s"
proof (induction rule: reachable.induct)
  case (reachable_init now ignore s)
  then show ?case by (rule init_in_range)
next
  case (reachable_run s c)
  then show ?case using run_stepped stepped_in_range by blast
qed

text \<open>
  C5. The sequence counter stays in 0..31. It starts at 0; every call of \<open>execute\<close>
  (with a 2-byte opcode, so that the call gets past its first assertion) advances it by
  exactly one modulo 32 and tags the request it sends with \<open>0x80 | counter\<close>; every
  operation of the class leaves the counter as it is or advances it by exactly one
  modulo 32, so it keeps the range; and every session that \<open>__init__\<close> and the
  operations can produce has its counter in the range.
\<close>

theorem sequence_counter_cycles:
  "seq new_link = 0
   \<and> (length reqtype = 2 \<longrightarrow> seq (snd (execute dev reqtype args s)) = (seq s + 1) mod 32)
   \<and> (length reqtype = 2 \<and> 0 \<le> seq s \<and> seq s < 32
        \<and> 4 + int (length (args_or_empty args)) < 2 ^ 32
      \<longrightarrow> last (connection (snd (execute dev reqtype args s))) ! 7 = 0x80 OR word_of_int (seq s))
   \<and> (seq (run E c t) = seq t \<or> seq (run E c t) = (seq t + 1) mod 32)
   \<and> (0 \<le> seq t \<and> seq t < 32 \<longrightarrow> 0 \<le> seq (run E c t) \<and> seq (run E c t) < 32)
   \<and> (reachable E u \<longrightarrow> 0 \<le> seq u \<and> seq u < 32)"
proof (intro conjI impI)
  show "seq new_link = 0" by (simp add: new_link_def)
  show "seq (snd (execute dev reqtype args s)) = (seq s + 1) mod 32" if "length reqtype = 2"
    using that by (simp add: execute_seq)
  show "last (connection (snd (execute dev reqtype args s))) ! 7 = 0x80 OR word_of_int (seq s)"
    if "length reqtype = 2 \<and> 0 \<le> seq s \<and> seq s < 32
        \<and> 4 + int (length (args_or_empty args)) < 2 ^ 32"
  proof -
    have "execute dev reqtype args s =
     (let full = wire_request reqtype (seq s) (args_or_empty args);
          resp = dev (connection s) full
      in ((if length resp < 4 then Inl UnderflowError
           else if take 4 resp \<noteq> wire_header reqtype (seq s) then Inl ProtocolMismatchError
           else Inr \<lparr>bdata = resp, bpos = 4\<rparr>),
          s\<lparr>seq := (seq s + 1) mod 32, connection := connection s @ [full]\<rparr>))"
      using that by (intro execute_unfold) simp_all
    then show ?thesis
      using that by (simp add: Let_def wire_request_def wire_header_def nth_append)
  qed
  show "seq (run E c t) = seq t \<or> seq (run E c t) = (seq t + 1) mod 32"
    using run_stepped[of t E c] by (simp add: stepped_def)
  show "0 \<le> seq (run E c t)" if "0 \<le> seq t \<and> seq t < 32"
    using that stepped_in_range[OF run_stepped[of t E c]] by (simp add: seq_in_range_def)
  show "seq (run E c t) < 32" if "0 \<le> seq t \<and> seq t < 32"
    using that stepped_in_range[OF run_stepped[of t E c]] by (simp add: seq_in_range_def)
  show "0 \<le> seq u" if "reachable E u"
    using reachable_in_range[OF that] by (simp add: seq_in_range_def)
  show "seq u < 32" if "reachable E u"
    using reachable_in_range[OF that] by (simp add: seq_in_range_def)
qed


lemma init_sample_session:
  "init (sample_env (fw_device 4 8 sample_cfg)) sample_now False = Inr sample_session"
  by code_simp

theorem sequence_counter_cycles_witness:
  "length [7, 0 :: byte] = 2
   \<and> seq (snd (execute echo_device [7, 0] None \<lparr>seq = 31, connection = []\<rparr>)) = 0
   \<and> last (connection (snd (execute echo_device [7, 0] None \<lparr>seq = 31, connection = []\<rparr>))) ! 7
       = 0x9f
   \<and> (seq (run (sample_env (fw_device 4 8 sample_cfg)) (Set_sound_on True) sample_session) = 5
        \<or> seq (run (sample_env (fw_device 4 8 sample_cfg)) (Set_sound_on True) sample_session) = 6)
   \<and> reachable (sample_env (fw_device 4 8 sample_cfg)) sample_session
   \<and> 0 \<le> seq sample_session \<and> seq sample_session < 32"
proof -
  have r: "reachable (sample_env (fw_device 4 8 sample_cfg)) sample_session"
    by (rule reachable_init[OF init_sample_session])
  have s: "seq sample_session = 5" by (simp add: sample_session_def)
  have a: "args_or_empty None = []" by (simp add: args_or_empty_def)
  show ?thesis
    using r s a
      sequence_counter_cycles[where reqtype = "[7, 0]" and dev = echo_device and args = None
        and s = "\<lparr>seq = 31, connection = []\<rparr>"
        and E = "sample_env (fw_device 4 8 sample_cfg)" and c = "Set_sound_on True"
        and t = sample_session and u = sample_session]
    by simp
qed

section \<open>Header check and register reads\<close>

text \<open>
  C2. In every exchange of \<open>execute\<close>: when the first 4 bytes of the response differ
  from the request header (opcode, \<open>0x00\<close>, sequence byte), \<open>execute\<close> raises
  \<open>ProtocolMismatchError\<close>; whenever the response does not begin with the header the
  call raises and returns nothing; when they are equal it returns the remaining
  response bytes as a cursor buffer.
\<close>

theorem execute_checks_echoed_header:
  assumes "length reqtype = 2" "0 \<le> seq s" "seq s < 32"
    and "payload = (case args of None \<Rightarrow> [] | Some a \<Rightarrow> a)"
    and "4 + int (length payload) < 2 ^ 32"
    and "header = reqtype @ [0x00, 0x80 OR word_of_int (seq s)]"
    and "response = dev (connection s) (le_bytes 4 (4 + int (length payload)) @ header @ payload)"
  shows "(4 \<le> length response \<and> take 4 response \<noteq> header
            \<longrightarrow> fst (execute dev reqtype args s) = Inl ProtocolMismatchError)
       \<and> (take 4 response \<noteq> header \<longrightarrow> (\<exists>e. fst (execute dev reqtype args s) = Inl e))
       \<and> (take 4 response = header
            \<longrightarrow> (\<exists>r. fst (execute dev reqtype args s) = Inr r
                    \<and> data_buffer r = drop 4 response
                    \<and> size_buffer r = int (length response) - 4))"
proof -
  have pa: "args_or_empty args = payload" by (simp add: assms(4) args_or_empty_def)
  have h: "length header = 4" by (simp add: assms(1,6))
  have w: "wire_header reqtype (seq s) = header" by (simp add: wire_header_def assms(6))
  have r: "dev (connection s) (wire_request reqtype (seq s) (args_or_empty args)) = response"
    by (simp add: assms(7) wire_request_def w pa h)
  have l: "4 \<le> length response" if "take 4 response = header"
    using that h by (metis length_take min.cobounded1)
  have "4 + int (length (args_or_empty args)) < 2 ^ 32" using assms(5) pa by simp
  note execute_unfold[OF assms(1-3) this, of dev]
  then have e: "fst (execute dev reqtype args s) =
      (if length response < 4 then Inl UnderflowError
       else if take 4 response \<noteq> header then Inl ProtocolMismatchError
       else Inr \<lparr>bdata = response, bpos = 4\<rparr>)"
    by (simp only: Let_def r w fst_conv)
  have c1: "4 \<le> length response \<and> take 4 response \<noteq> header
      \<longrightarrow> fst (execute dev reqtype args s) = Inl ProtocolMismatchError"
    by (simp add: e)
  have c2: "take 4 response \<noteq> header \<longrightarrow> (\<exists>e. fst (execute dev reqtype args s) = Inl e)"
    by (simp add: e)
  have c3: "take 4 response = header
      \<longrightarrow> (\<exists>r. fst (execute dev reqtype args s) = Inr r
              \<and> data_buffer r = drop 4 response
              \<and> size_buffer r = int (length response) - 4)"
    using l by (auto simp: e data_buffer_def size_buffer_def)
  show ?thesis using c1 c2 c3 by blast
qed

theorem execute_checks_echoed_header_witness:
  "length [7, 0 :: byte] = 2 \<and> (0::int) \<le> 3 \<and> (3::int) < 32
   \<and> fst (execute (\<lambda>hist req. [7, 0, 0, 0x84, 1, 0, 0, 0]) [7, 0] None
          \<lparr>seq = 3, connection = []\<rparr>) = Inl ProtocolMismatchError
   \<and> (\<exists>r. fst (execute (\<lambda>hist req. [7, 0, 0, 0x83, 1, 0, 0, 0]) [7, 0] None
          \<lparr>seq = 3, connection = []\<rparr>) = Inr r \<and> data_buffer r = [1, 0, 0, 0] \<and> size_buffer r = 4)"
  using execute_checks_echoed_header[where reqtype = "[7, 0]" and args = None
      and s = "\<lparr>seq = 3, connection = []\<rparr>" and payload = "[]"
      and header = "[7, 0, 0, 0x83]" and response = "[7, 0, 0, 0x84, 1, 0, 0, 0]"
      and dev = "\<lambda>hist req. [7, 0, 0, 0x84, 1, 0, 0, 0]"]
    execute_checks_echoed_header[where reqtype = "[7, 0]" and args = None
      and s = "\<lparr>seq = 3, connection = []\<rparr>" and payload = "[]"
      and header = "[7, 0, 0, 0x83]" and response = "[7, 0, 0, 0x83, 1, 0, 0, 0]"
      and dev = "\<lambda>hist req. [7, 0, 0, 0x83, 1, 0, 0, 0]"]
  by simp

text \<open>
  C10. A batch read of an empty list of register ids fails at its precondition
  assertion before any transport I/O: the session, with its counter and the requests
  sent, is unchanged, and no empty result list is returned.
\<close>

theorem batch_read_vsfrs_empty:
  "batch_read_vsfrs dev [] s = (Inl EmptyBatchError, s)
   \<and> connection (snd (batch_read_vsfrs dev [] s)) = connection s
   \<and> seq (snd (batch_read_vsfrs dev [] s)) = seq s
   \<and> fst (batch_read_vsfrs dev [] s) \<noteq> Inr []"
  by (simp add: batch_read_vsfrs_def)

lemma pack_I_in_range: "0 \<le> v \<Longrightarrow> v < 2 ^ 32 \<Longrightarrow> pack_I v = Inr (le_bytes 4 v)"
  by (simp add: pack_I_def)

lemma unpack_II_at:
  "bpos r + 8 \<le> length (bdata r) \<Longrightarrow>
   unpack_II r = Inr ((le_int (take 4 (drop (bpos r) (bdata r))),
                      le_int (take 4 (drop (bpos r + 4) (bdata r)))), r\<lparr>bpos := bpos r + 8\<rparr>)"
  by (simp add: unpack_II_def unpack_s_def size_buffer_def drop_take add.commute)

lemma unpack_II_short:
  "length (bdata r) < bpos r + 8 \<Longrightarrow> unpack_II r = Inl UnderflowError"
  by (simp add: unpack_II_def unpack_s_def size_buffer_def)

lemma args_or_empty_Some [simp]: "args_or_empty (Some a) = a"
  by (simp add: args_or_empty_def)

lemma args_or_empty_None [simp]: "args_or_empty None = []"
  by (simp add: args_or_empty_def)

lemma execute_fst:
  assumes "length reqtype = 2" "0 \<le> seq s" "seq s < 32"
    and "4 + int (length (args_or_empty args)) < 2 ^ 32"
    and "header = reqtype @ [0x00, 0x80 OR word_of_int (seq s)]"
    and "response = dev (connection s)
           (le_bytes 4 (4 + int (length (args_or_empty args))) @ header @ args_or_empty args)"
  shows "execute dev reqtype args s =
      ((if length response < 4 then Inl UnderflowError
        else if take 4 response \<noteq> header then Inl ProtocolMismatchError
        else Inr \<lparr>bdata = response, bpos = 4\<rparr>),
       s\<lparr>seq := (seq s + 1) mod 32,
          connection := connection s @
            [le_bytes 4 (4 + int (length (args_or_empty args))) @ header @ args_or_empty args]\<rparr>)"
proof -
  have w: "wire_header reqtype (seq s) = header" by (simp add: wire_header_def assms(5))
  have q: "wire_request reqtype (seq s) (args_or_empty args)
      = le_bytes 4 (4 + int (length (args_or_empty args))) @ header @ args_or_empty args"
    using assms(1) by (simp add: wire_request_def w) (simp add: assms(5))
  show ?thesis
    using execute_unfold[OF assms(1-4), of dev] by (simp only: Let_def q w assms(6))
qed

lemma read_request_fst:
  assumes "0 \<le> seq s" "seq s < 32" "0 \<le> command_id" "command_id < 2 ^ 32"
    and "header = [0x26, 0x08, 0x00, 0x80 OR word_of_int (seq s)]"
    and "response = dev (connection s) (le_bytes 4 8 @ header @ le_bytes 4 command_id)"
  shows "fst (read_request dev command_id s) =
     (if length response < 4 then Inl UnderflowError
      else if take 4 response \<noteq> header then Inl ProtocolMismatchError
      else if length response < 12 then Inl UnderflowError
      else if le_int (take 4 (drop 4 response)) \<noteq> 1 then Inl DeviceRejectedError
      else if int (length (drop 12 response)) = le_int (take 4 (drop 8 response)) + 1
              \<and> last (drop 12 response) = 0
           then Inr \<lparr>bdata = butlast response, bpos = 12\<rparr>
      else if int (length (drop 12 response)) = le_int (take 4 (drop 8 response))
           then Inr \<lparr>bdata = response, bpos = 12\<rparr>
      else Inl LengthMismatchError)"
proof -
  have e: "execute dev [0x26, 0x08] (Some (le_bytes 4 command_id)) s =
      ((if length response < 4 then Inl UnderflowError
        else if take 4 response \<noteq> header then Inl ProtocolMismatchError
        else Inr \<lparr>bdata = response, bpos = 4\<rparr>),
       s\<lparr>seq := (seq s + 1) mod 32,
          connection := connection s @ [le_bytes 4 8 @ header @ le_bytes 4 command_id]\<rparr>)"
    using execute_fst[where reqtype = "[0x26, 0x08]" and args = "Some (le_bytes 4 command_id)"
        and s = s and header = header and response = response and dev = dev] assms
    by simp
  have le: "0 \<le> le_int bs" for bs by (induction bs) simp_all
  show ?thesis
  proof (cases "length response < 4 \<or> take 4 response \<noteq> header")
    case True
    then show ?thesis
      using assms(3,4) by (auto simp: read_request_def pack_I_in_range e)
  next
    case False
    show ?thesis
    proof (cases "length response < 12")
      case True
      then show ?thesis
        using False assms(3,4)
        by (simp add: read_request_def pack_I_in_range e unpack_II_short)
    next
      case l: False
      have u: "unpack_II \<lparr>bdata = response, bpos = 4\<rparr> =
          Inr ((le_int (take 4 (drop 4 response)), le_int (take 4 (drop 8 response))),
               \<lparr>bdata = response, bpos = 12\<rparr>)"
        using l by (simp add: unpack_II_at)
      have lst: "last response = last (drop 12 response)" if "12 < length response"
        using that by simp
      show ?thesis
        using False l assms(3,4) le[of "take 4 (drop 8 response)"]
        by (auto simp: read_request_def pack_I_in_range e u Let_def size_buffer_def)
    qed
  qed
qed

text \<open>
  C3. A register read whose return code is 1, with declared length \<open>L\<close>: when the
  remaining payload has \<open>L + 1\<close> bytes and the last is \<open>0x00\<close>, that byte is trimmed and
  the read succeeds with an \<open>L\<close>-byte payload; when it has \<open>L + 1\<close> bytes and the last
  is not \<open>0x00\<close>, or its length differs from \<open>L\<close> otherwise, the read raises
  \<open>LengthMismatchError\<close>; with exactly \<open>L\<close> bytes it succeeds.
\<close>

theorem read_request_length_tolerance:
  assumes "0 \<le> seq s" "seq s < 32" "0 \<le> command_id" "command_id < 2 ^ 32"
    and "header = [0x26, 0x08, 0x00, 0x80 OR word_of_int (seq s)]"
    and "response = dev (connection s) (le_bytes 4 8 @ header @ le_bytes 4 command_id)"
    and "12 \<le> length response" "take 4 response = header"
    and "le_int (take 4 (drop 4 response)) = 1"
    and "L = le_int (take 4 (drop 8 response))"
    and "rest = drop 12 response"
  shows "(int (length rest) = L + 1 \<and> last rest = 0x00
            \<longrightarrow> (\<exists>r. fst (read_request dev command_id s) = Inr r
                      \<and> data_buffer r = butlast rest \<and> size_buffer r = L))
       \<and> (int (length rest) = L + 1 \<and> last rest \<noteq> 0x00
            \<longrightarrow> fst (read_request dev command_id s) = Inl LengthMismatchError)
       \<and> (int (length rest) \<noteq> L + 1 \<and> int (length rest) \<noteq> L
            \<longrightarrow> fst (read_request dev command_id s) = Inl LengthMismatchError)
       \<and> (int (length rest) = L
            \<longrightarrow> (\<exists>r. fst (read_request dev command_id s) = Inr r
                      \<and> data_buffer r = rest \<and> size_buffer r = L))"
proof -
  note f = read_request_fst[where dev = dev, OF assms(1-6)]
  have c1: "int (length rest) = L + 1 \<and> last rest = 0x00
      \<longrightarrow> (\<exists>r. fst (read_request dev command_id s) = Inr r
                \<and> data_buffer r = butlast rest \<and> size_buffer r = L)"
    using assms(7-11)
    by (auto simp: f data_buffer_def size_buffer_def butlast_drop)
  have c2: "int (length rest) = L + 1 \<and> last rest \<noteq> 0x00
      \<longrightarrow> fst (read_request dev command_id s) = Inl LengthMismatchError"
    using assms(7-11) by (auto simp: f)
  have c3: "int (length rest) \<noteq> L + 1 \<and> int (length rest) \<noteq> L
      \<longrightarrow> fst (read_request dev command_id s) = Inl LengthMismatchError"
    using assms(7-11) by (auto simp: f)
  have c4: "int (length rest) = L
      \<longrightarrow> (\<exists>r. fst (read_request dev command_id s) = Inr r
                \<and> data_buffer r = rest \<and> size_buffer r = L)"
    using assms(7-11) by (auto simp: f data_buffer_def size_buffer_def)
  show ?thesis using c1 c2 c3 c4 by blast
qed

theorem read_request_length_tolerance_witness:
  "(0::int) \<le> 0 \<and> (0::int) < 32 \<and> (0::int) \<le> 2 \<and> (2::int) < 2 ^ 32
   \<and> (\<exists>r. fst (read_request trailing_zero_device 2 \<lparr>seq = 0, connection = []\<rparr>) = Inr r
          \<and> data_buffer r = [0xAA, 0xBB] \<and> size_buffer r = 2)
   \<and> fst (read_request trailing_one_device 2 \<lparr>seq = 0, connection = []\<rparr>)
       = Inl LengthMismatchError"
proof -
  let ?s = "\<lparr>seq = 0, connection = []\<rparr> :: link"
  let ?h = "[0x26, 0x08, 0, 0x80] :: bytes"
  let ?r0 = "[0x26, 0x08, 0, 0x80, 1, 0, 0, 0, 2, 0, 0, 0, 0xAA, 0xBB, 0x00] :: bytes"
  let ?r1 = "[0x26, 0x08, 0, 0x80, 1, 0, 0, 0, 2, 0, 0, 0, 0xAA, 0xBB, 0x01] :: bytes"
  have h1: "0 \<le> seq ?s" "seq ?s < 32" "(0::int) \<le> 2" "(2::int) < 2 ^ 32" by simp_all
  have h5: "?h = [0x26, 0x08, 0x00, 0x80 OR word_of_int (seq ?s)]" by simp
  have h6: "?r0 = trailing_zero_device (connection ?s) (le_bytes 4 8 @ ?h @ le_bytes 4 2)"
    by (simp add: trailing_zero_device_def)
  have h6': "?r1 = trailing_one_device (connection ?s) (le_bytes 4 8 @ ?h @ le_bytes 4 2)"
    by (simp add: trailing_one_device_def)
  have h7: "12 \<le> length ?r0" "take 4 ?r0 = ?h" "12 \<le> length ?r1" "take 4 ?r1 = ?h" by simp_all
  have h9: "le_int (take 4 (drop 4 ?r0)) = 1" "le_int (take 4 (drop 4 ?r1)) = 1" by simp_all
  have h10: "2 = le_int (take 4 (drop 8 ?r0))" "2 = le_int (take 4 (drop 8 ?r1))" by simp_all
  have h11: "[0xAA, 0xBB, 0x00] = drop 12 ?r0" "[0xAA, 0xBB, 0x01] = drop 12 ?r1" by simp_all
  note a = read_request_length_tolerance[where dev = trailing_zero_device,
      OF h1 h5 h6 h7(1,2) h9(1) h10(1) h11(1)]
  note b = read_request_length_tolerance[where dev = trailing_one_device,
      OF h1 h5 h6' h7(3,4) h9(2) h10(2) h11(2)]
  have "\<exists>r. fst (read_request trailing_zero_device 2 ?s) = Inr r
          \<and> data_buffer r = [0xAA, 0xBB] \<and> size_buffer r = 2"
    using a by simp
  moreover have "fst (read_request trailing_one_device 2 ?s) = Inl LengthMismatchError"
    using b by simp
  ultimately show ?thesis by simp
qed

section \<open>Batch reads\<close>

lemma pack_I_all_in_range:
  "\<forall>c \<in> set cs. 0 \<le> c \<and> c < 2 ^ 32 \<Longrightarrow> pack_I_all cs = Inr (concat (map (le_bytes 4) cs))"
  by (induction cs) (simp_all add: pack_I_in_range)

lemma length_concat_le_bytes: "length (concat (map (le_bytes n) cs)) = n * length cs"
  by (induction cs) simp_all

lemma chunk_concat_le_bytes:
  "i < length cs \<Longrightarrow> take n (drop (n * i) (concat (map (le_bytes n) cs))) = le_bytes n (cs ! i)"
proof (induction cs arbitrary: i)
  case Nil
  then show ?case by simp
next
  case (Cons c cs)
  show ?case
  proof (cases i)
    case 0
    then show ?thesis by simp
  next
    case (Suc j)
    then show ?thesis using Cons by simp
  qed
qed

lemma unpack_I_at:
  "bpos r + 4 \<le> length (bdata r) \<Longrightarrow>
   unpack_I r = Inr (le_int (take 4 (drop (bpos r) (bdata r))), r\<lparr>bpos := bpos r + 4\<rparr>)"
  by (simp add: unpack_I_def unpack_s_def size_buffer_def)

lemma unpack_I_short: "length (bdata r) < bpos r + 4 \<Longrightarrow> unpack_I r = Inl UnderflowError"
  by (simp add: unpack_I_def unpack_s_def size_buffer_def)

lemma unpack_I_times_at:
  "unpack_I_times n r =
     (if length (bdata r) < bpos r + 4 * n \<and> 0 < n then Inl UnderflowError
      else Inr (map (\<lambda>i. le_int (take 4 (drop (bpos r + 4 * i) (bdata r)))) [0..<n],
                if n = 0 then r else r\<lparr>bpos := bpos r + 4 * n\<rparr>))"
proof (induction n arbitrary: r)
  case 0
  then show ?case by simp
next
  case (Suc n)
  show ?case
  proof (cases "length (bdata r) < bpos r + 4")
    case True
    then show ?thesis by (simp add: unpack_I_short)
  next
    case False
    then have u: "unpack_I r = Inr (le_int (take 4 (drop (bpos r) (bdata r))), r\<lparr>bpos := bpos r + 4\<rparr>)"
      by (simp add: unpack_I_at)
    have m: "map (\<lambda>i. le_int (take 4 (drop (bpos r + 4 * i) (bdata r)))) [0..<Suc n]
        = le_int (take 4 (drop (bpos r) (bdata r)))
          # map (\<lambda>i. le_int (take 4 (drop (bpos r + 4 + 4 * i) (bdata r)))) [0..<n]"
      by (simp add: upt_conv_Cons map_Suc_upt[symmetric] add.assoc del: upt_Suc)
    show ?thesis
    proof (cases "n = 0")
      case True
      then show ?thesis using False by (simp add: u)
    next
      case False
      then show ?thesis
        using \<open>\<not> length (bdata r) < bpos r + 4\<close>
        by (simp add: u Suc.IH m add.assoc del: upt_Suc)
    qed
  qed
qed

lemma batch_read_vsfrs_unfold:
  assumes "vsfr_ids \<noteq> []" "\<forall>c \<in> set vsfr_ids. 0 \<le> c \<and> c < 2 ^ 32"
    and "0 \<le> seq s" "seq s < 32" "4 + 4 * int (length vsfr_ids) < 2 ^ 32"
    and "header = [0x2a, 0x08, 0x00, 0x80 OR word_of_int (seq s)]"
    and "request = le_bytes 4 (4 + 4 * int (length vsfr_ids)) @ header
                     @ concat (map (le_bytes 4) vsfr_ids)"
    and "response = dev (connection s) request"
  shows "batch_read_vsfrs dev vsfr_ids s =
     ((if length response < 4 then Inl UnderflowError
       else if take 4 response \<noteq> header then Inl ProtocolMismatchError
       else if length response < 4 + 4 * length vsfr_ids then Inl UnderflowError
       else if length response \<noteq> 4 + 4 * length vsfr_ids then Inl TrailingBytesError
       else Inr (map (\<lambda>i. le_int (take 4 (drop (4 + 4 * i) response))) [0..<length vsfr_ids])),
      s\<lparr>seq := (seq s + 1) mod 32, connection := connection s @ [request]\<rparr>)"
proof -
  let ?payload = "concat (map (le_bytes 4) vsfr_ids)"
  have len: "int (length ?payload) = 4 * int (length vsfr_ids)"
    by (simp add: length_concat_le_bytes)
  have e: "execute dev [0x2a, 0x08] (Some ?payload) s =
      ((if length response < 4 then Inl UnderflowError
        else if take 4 response \<noteq> header then Inl ProtocolMismatchError
        else Inr \<lparr>bdata = response, bpos = 4\<rparr>),
       s\<lparr>seq := (seq s + 1) mod 32, connection := connection s @ [request]\<rparr>)"
    using execute_fst[where reqtype = "[0x2a, 0x08]" and args = "Some ?payload"
        and s = s and header = header and response = response and dev = dev] assms(3-8)
    by (simp add: len)
  have k: "0 < length vsfr_ids" using assms(1) by simp
  show ?thesis
    using assms(1,2) k
    by (simp add: batch_read_vsfrs_def pack_I_all_in_range e unpack_I_times_at size_buffer_def)
qed

lemma le_int_bounds: "0 \<le> le_int bs \<and> le_int bs < 2 ^ (8 * length bs)"
proof (induction bs)
  case Nil
  then show ?case by simp
next
  case (Cons b bs)
  have "uint b < 256" using uint_bounded[of b] by simp
  moreover have "0 \<le> uint b" by simp
  moreover have "le_int bs + 1 \<le> 2 ^ (8 * length bs)" using Cons by simp
  then have "256 * (le_int bs + 1) \<le> 256 * 2 ^ (8 * length bs)" by simp
  ultimately show ?case using Cons by (simp add: power_add)
qed

text \<open>
  C6. For a non-empty list of \<open>k\<close> register ids, a batch read sends one request whose
  payload is the ids as consecutive 4-byte little-endian values, in order; when it
  succeeds it returns exactly \<open>k\<close> 32-bit values, the \<open>i\<close>-th decoded from the \<open>i\<close>-th
  four bytes of the response payload, and then the payload is exactly exhausted: with a
  payload of any other length the call fails and returns no partial result.
\<close>

theorem batch_read_vsfrs_in_order:
  assumes "vsfr_ids \<noteq> []" "\<forall>c \<in> set vsfr_ids. 0 \<le> c \<and> c < 2 ^ 32"
    and "0 \<le> seq s" "seq s < 32" "4 + 4 * int (length vsfr_ids) < 2 ^ 32"
    and "k = length vsfr_ids"
    and "payload = concat (map (le_bytes 4) vsfr_ids)"
    and "header = [0x2a, 0x08, 0x00, 0x80 OR word_of_int (seq s)]"
    and "request = le_bytes 4 (4 + 4 * int k) @ header @ payload"
    and "response = dev (connection s) request"
  shows "length payload = 4 * k
       \<and> (\<forall>i<k. le_int (take 4 (drop (4 * i) payload)) = vsfr_ids ! i)
       \<and> connection (snd (batch_read_vsfrs dev vsfr_ids s)) = connection s @ [request]
       \<and> (\<forall>vals. fst (batch_read_vsfrs dev vsfr_ids s) = Inr vals
             \<longrightarrow> length vals = k \<and> length response = 4 + 4 * k
                 \<and> (\<forall>i<k. vals ! i = le_int (take 4 (drop (4 + 4 * i) response))
                           \<and> 0 \<le> vals ! i \<and> vals ! i < 2 ^ 32))
       \<and> (take 4 response = header \<and> length response = 4 + 4 * k
             \<longrightarrow> (\<exists>vals. fst (batch_read_vsfrs dev vsfr_ids s) = Inr vals))
       \<and> (length response \<noteq> 4 + 4 * k
             \<longrightarrow> (\<exists>e. fst (batch_read_vsfrs dev vsfr_ids s) = Inl e))"
proof -
  have rq: "request = le_bytes 4 (4 + 4 * int (length vsfr_ids)) @ header
                     @ concat (map (le_bytes 4) vsfr_ids)"
    by (simp add: assms(6,7,9))
  note u = batch_read_vsfrs_unfold[where dev = dev, OF assms(1-5) assms(8) rq assms(10)]
  have c1: "length payload = 4 * k" by (simp add: assms(6,7) length_concat_le_bytes)
  have c2: "\<forall>i<k. le_int (take 4 (drop (4 * i) payload)) = vsfr_ids ! i"
  proof (intro allI impI)
    fix i assume i: "i < k"
    then have "0 \<le> vsfr_ids ! i \<and> vsfr_ids ! i < 2 ^ 32"
      using assms(2,6) by simp
    then have "le_int (le_bytes 4 (vsfr_ids ! i)) = vsfr_ids ! i"
      by (intro le_int_le_bytes) simp_all
    then show "le_int (take 4 (drop (4 * i) payload)) = vsfr_ids ! i"
      using i by (simp add: assms(6,7) chunk_concat_le_bytes)
  qed
  have c3: "connection (snd (batch_read_vsfrs dev vsfr_ids s)) = connection s @ [request]"
    by (simp add: u)
  have b: "0 \<le> le_int (take 4 xs) \<and> le_int (take 4 xs) < 2 ^ 32" for xs :: bytes
  proof -
    have "(2::int) ^ (8 * length (take 4 xs)) \<le> 2 ^ 32"
      by (intro power_increasing) simp_all
    then show ?thesis using le_int_bounds[of "take 4 xs"] by linarith
  qed
  have c4: "\<forall>vals. fst (batch_read_vsfrs dev vsfr_ids s) = Inr vals
      \<longrightarrow> length vals = k \<and> length response = 4 + 4 * k
          \<and> (\<forall>i<k. vals ! i = le_int (take 4 (drop (4 + 4 * i) response))
                    \<and> 0 \<le> vals ! i \<and> vals ! i < 2 ^ 32)"
    using b by (auto simp: u assms(6) split: if_splits)
  have h: "length header = 4" by (simp add: assms(8))
  have c5: "take 4 response = header \<and> length response = 4 + 4 * k
      \<longrightarrow> (\<exists>vals. fst (batch_read_vsfrs dev vsfr_ids s) = Inr vals)"
    by (simp add: u assms(6))
  have c6: "length response \<noteq> 4 + 4 * k
      \<longrightarrow> (\<exists>e. fst (batch_read_vsfrs dev vsfr_ids s) = Inl e)"
    by (simp add: u assms(6))
  show ?thesis using c1 c2 c3 c4 c5 c6 by blast
qed

lemma le_bytes_4:
  "le_bytes 4 v = [word_of_int v, word_of_int (v div 256), word_of_int (v div 256 div 256),
                   word_of_int (v div 256 div 256 div 256)]"
  by (simp add: eval_nat_numeral)

lemma le_bytes_2: "le_bytes 2 v = [word_of_int v, word_of_int (v div 256)]"
  by (simp add: eval_nat_numeral)

theorem batch_read_vsfrs_in_order_witness:
  "[0x0522, 0x0530 :: int] \<noteq> [] \<and> (0::int) \<le> 0x0522 \<and> (0x0522::int) < 2 ^ 32
   \<and> (0::int) \<le> 0x0530 \<and> (0x0530::int) < 2 ^ 32
   \<and> connection (snd (batch_read_vsfrs batch_device [0x0522, 0x0530] \<lparr>seq = 0, connection = []\<rparr>))
       = [[12, 0, 0, 0, 0x2a, 0x08, 0, 0x80, 0x22, 0x05, 0, 0, 0x30, 0x05, 0, 0]]
   \<and> (\<exists>vals. fst (batch_read_vsfrs batch_device [0x0522, 0x0530] \<lparr>seq = 0, connection = []\<rparr>)
          = Inr vals \<and> length vals = 2 \<and> vals ! 0 = 1 \<and> vals ! 1 = 2)"
proof -
  let ?s = "\<lparr>seq = 0, connection = []\<rparr> :: link"
  let ?ids = "[0x0522, 0x0530] :: int list"
  let ?h = "[0x2a, 0x08, 0, 0x80] :: bytes"
  let ?p = "[0x22, 0x05, 0, 0, 0x30, 0x05, 0, 0] :: bytes"
  let ?rq = "[12, 0, 0, 0, 0x2a, 0x08, 0, 0x80, 0x22, 0x05, 0, 0, 0x30, 0x05, 0, 0] :: bytes"
  let ?rs = "[0x2a, 0x08, 0, 0x80, 1, 0, 0, 0, 2, 0, 0, 0] :: bytes"
  have h1: "?ids \<noteq> []" by simp
  have h2: "\<forall>c \<in> set ?ids. 0 \<le> c \<and> c < 2 ^ 32" by simp
  have h3: "0 \<le> seq ?s" "seq ?s < 32" "4 + 4 * int (length ?ids) < 2 ^ 32" by simp_all
  have h6: "(2::nat) = length ?ids" by simp
  have h7: "?p = concat (map (le_bytes 4) ?ids)" by (simp add: le_bytes_4)
  have h8: "?h = [0x2a, 0x08, 0x00, 0x80 OR word_of_int (seq ?s)]" by simp
  have h9: "?rq = le_bytes 4 (4 + 4 * int (2::nat)) @ ?h @ ?p" by (simp add: le_bytes_4)
  have h10: "?rs = batch_device (connection ?s) ?rq" by (simp add: batch_device_def)
  note t = batch_read_vsfrs_in_order[where dev = batch_device, OF h1 h2 h3 h6 h7 h8 h9 h10]
  have c: "connection (snd (batch_read_vsfrs batch_device ?ids ?s)) = [?rq]"
    using t by simp
  have l: "take 4 ?rs = ?h \<and> length ?rs = 4 + 4 * 2" by simp
  with t obtain vals where v: "fst (batch_read_vsfrs batch_device ?ids ?s) = Inr vals"
    by blast
  with t have a: "length vals = 2
      \<and> (\<forall>i<2. vals ! i = le_int (take 4 (drop (4 + 4 * i) ?rs))
                \<and> 0 \<le> vals ! i \<and> vals ! i < 2 ^ 32)"
    by blast
  have z: "(0::nat) < 2" "(1::nat) < 2" by simp_all
  from a z have "length vals = 2 \<and> vals ! 0 = le_int (take 4 (drop (4 + 4 * 0) ?rs))
      \<and> vals ! 1 = le_int (take 4 (drop (4 + 4 * 1) ?rs))"
    by blast
  then have "length vals = 2 \<and> vals ! 0 = 1 \<and> vals ! 1 = 2" by simp
  then have "\<exists>vals. fst (batch_read_vsfrs batch_device ?ids ?s) = Inr vals
      \<and> length vals = 2 \<and> vals ! 0 = 1 \<and> vals ! 1 = 2"
    using v by blast
  with c show ?thesis by simp
qed

section \<open>The setters\<close>

lemma write_request_snd:
  assumes "0 \<le> command_id" "command_id < 2 ^ 32"
  shows "snd (write_request dev command_id data s)
      = snd (execute dev [0x25, 0x08] (Some (le_bytes 4 command_id @ args_or_empty data)) s)"
  using assms
  by (simp add: write_request_def pack_I_in_range args_or_empty_def split: sum.splits prod.splits)

text \<open>
  C8. For every boolean \<open>on\<close>, \<open>set_vibro_on\<close> issues a register write to the register
  \<open>SOUND_ON\<close> with value \<open>int(on)\<close>, the same write as \<open>set_sound_on\<close>: the one request
  it sends carries the code of \<open>SOUND_ON\<close> in its register field, hence not the code of
  the vibration register \<open>VIBRO_CTRL\<close>.
\<close>

theorem set_vibro_on_writes_sound_on:
  assumes "0 \<le> seq s" "seq s < 32"
    and "0 \<le> int_VSFR E SOUND_ON" "int_VSFR E SOUND_ON < 2 ^ 32"
    and "request = le_bytes 4 12 @ [0x25, 0x08, 0x00, 0x80 OR word_of_int (seq s)]
                     @ le_bytes 4 (int_VSFR E SOUND_ON) @ le_bytes 4 (if on then 1 else 0)"
  shows "set_vibro_on E on s = set_sound_on E on s
       \<and> set_vibro_on E on s
           = write_request (device E) (int_VSFR E SOUND_ON)
               (Some (le_bytes 4 (if on then 1 else 0))) s
       \<and> connection (snd (set_vibro_on E on s)) = connection s @ [request]
       \<and> le_int (take 4 (drop 8 request)) = int_VSFR E SOUND_ON
       \<and> le_int (drop 12 request) = (if on then 1 else 0)
       \<and> (int_VSFR E VIBRO_CTRL \<noteq> int_VSFR E SOUND_ON
            \<longrightarrow> le_int (take 4 (drop 8 request)) \<noteq> int_VSFR E VIBRO_CTRL)"
proof -
  let ?v = "if on then 1 else 0 :: int"
  have c1: "set_vibro_on E on s = set_sound_on E on s"
    by (simp add: set_vibro_on_def set_sound_on_def)
  have c2: "set_vibro_on E on s
      = write_request (device E) (int_VSFR E SOUND_ON) (Some (le_bytes 4 ?v)) s"
    by (simp add: set_vibro_on_def write_request_I_def pack_I_def)
  have "execute (device E) [0x25, 0x08] (Some (le_bytes 4 (int_VSFR E SOUND_ON) @ le_bytes 4 ?v)) s
      = ((if length (device E (connection s) request) < 4 then Inl UnderflowError
          else if take 4 (device E (connection s) request)
                    \<noteq> [0x25, 0x08, 0x00, 0x80 OR word_of_int (seq s)]
               then Inl ProtocolMismatchError
          else Inr \<lparr>bdata = device E (connection s) request, bpos = 4\<rparr>),
         s\<lparr>seq := (seq s + 1) mod 32, connection := connection s @ [request]\<rparr>)"
    using execute_fst[where reqtype = "[0x25, 0x08]"
        and args = "Some (le_bytes 4 (int_VSFR E SOUND_ON) @ le_bytes 4 ?v)"
        and s = s and header = "[0x25, 0x08, 0x00, 0x80 OR word_of_int (seq s)]"
        and response = "device E (connection s) request" and dev = "device E"] assms(1,2)
    by (simp add: assms(5))
  then have c3: "connection (snd (set_vibro_on E on s)) = connection s @ [request]"
    using write_request_snd[OF assms(3,4), of "device E" "Some (le_bytes 4 ?v)" s]
    by (simp add: c2)
  have c4: "le_int (take 4 (drop 8 request)) = int_VSFR E SOUND_ON"
    using le_int_le_bytes[of "int_VSFR E SOUND_ON" 4] assms(3,4) by (simp add: assms(5))
  have c5: "le_int (drop 12 request) = ?v"
    using le_int_le_bytes[of ?v 4] by (simp add: assms(5))
  show ?thesis using c1 c2 c3 c4 c5 by simp
qed

theorem set_vibro_on_writes_sound_on_witness:
  "(0::int) \<le> 0 \<and> (0::int) < 32
   \<and> 0 \<le> int_VSFR (sample_env echo_device) SOUND_ON
   \<and> int_VSFR (sample_env echo_device) SOUND_ON < 2 ^ 32
   \<and> int_VSFR (sample_env echo_device) VIBRO_CTRL \<noteq> int_VSFR (sample_env echo_device) SOUND_ON
   \<and> set_vibro_on (sample_env echo_device) True \<lparr>seq = 0, connection = []\<rparr>
       = set_sound_on (sample_env echo_device) True \<lparr>seq = 0, connection = []\<rparr>
   \<and> connection (snd (set_vibro_on (sample_env echo_device) True \<lparr>seq = 0, connection = []\<rparr>))
       = [[12, 0, 0, 0, 0x25, 0x08, 0, 0x80, 0x22, 0x05, 0, 0, 1, 0, 0, 0]]"
proof -
  let ?s = "\<lparr>seq = 0, connection = []\<rparr> :: link"
  let ?E = "sample_env echo_device"
  let ?rq = "[12, 0, 0, 0, 0x25, 0x08, 0, 0x80, 0x22, 0x05, 0, 0, 1, 0, 0, 0] :: bytes"
  have h1: "0 \<le> seq ?s" "seq ?s < 32" by simp_all
  have h3: "0 \<le> int_VSFR ?E SOUND_ON" "int_VSFR ?E SOUND_ON < 2 ^ 32"
    by (simp_all add: sample_env_def)
  have h5: "?rq = le_bytes 4 12 @ [0x25, 0x08, 0x00, 0x80 OR word_of_int (seq ?s)]
                     @ le_bytes 4 (int_VSFR ?E SOUND_ON) @ le_bytes 4 (if True then 1 else 0)"
    by (simp add: sample_env_def le_bytes_4)
  have h6: "int_VSFR ?E VIBRO_CTRL \<noteq> int_VSFR ?E SOUND_ON" by (simp add: sample_env_def)
  note t = set_vibro_on_writes_sound_on[OF h1 h3 h5]
  have t1: "set_vibro_on ?E True ?s = set_sound_on ?E True ?s"
    by (rule t[THEN conjunct1])
  have t3: "connection (snd (set_vibro_on ?E True ?s)) = [?rq]"
    using t[THEN conjunct2, THEN conjunct2, THEN conjunct1] by simp
  have n: "(0::int) \<le> 0 \<and> (0::int) < 32" by simp
  show ?thesis using n t1 t3 h3 h6 by blast
qed

section \<open>The configuration scan\<close>

lemma split_on_unfold:
  "split_on sep l =
     takeWhile (\<lambda>c. c \<noteq> sep) l
       # (case dropWhile (\<lambda>c. c \<noteq> sep) l of [] \<Rightarrow> [] | x # r \<Rightarrow> split_on sep r)"
  by (induction l) (auto split: list.splits)

lemma split_on_no_sep: "sep \<notin> set l \<Longrightarrow> split_on sep l = [l]"
proof -
  assume a: "sep \<notin> set l"
  then have "\<forall>x \<in> set l. x \<noteq> sep" by auto
  then have tw: "takeWhile (\<lambda>c. c \<noteq> sep) l = l"
    and dw: "dropWhile (\<lambda>c. c \<noteq> sep) l = []"
    by simp_all
  show ?thesis by (subst split_on_unfold) (simp only: tw dw list.case)
qed

lemma split_on_second:
  assumes "sep \<in> set l"
  shows "\<exists>fs. split_on sep l =
      takeWhile (\<lambda>c. c \<noteq> sep) l
        # takeWhile (\<lambda>c. c \<noteq> sep) (tl (dropWhile (\<lambda>c. c \<noteq> sep) l)) # fs"
proof -
  from assms obtain x r where d: "dropWhile (\<lambda>c. c \<noteq> sep) l = x # r"
    by (cases "dropWhile (\<lambda>c. c \<noteq> sep) l") auto
  have "split_on sep l = takeWhile (\<lambda>c. c \<noteq> sep) l # split_on sep r"
    by (subst split_on_unfold) (simp add: d)
  moreover have "\<exists>fs. split_on sep r = takeWhile (\<lambda>c. c \<noteq> sep) r # fs"
    by (subst split_on_unfold) simp
  ultimately show ?thesis by (auto simp: d)
qed

lemma version_line_field:
  "(case split_on (CHR ''='') line of f0 # f1 # fs \<Rightarrow> py_int m f1 | _ \<Rightarrow> Inl IndexError)
     = (if CHR ''='' \<in> set line then py_int m (field_after_first_eq line) else Inl IndexError)"
proof (cases "CHR ''='' \<in> set line")
  case True
  from split_on_second[OF this] show ?thesis
    using True by (auto simp: field_after_first_eq_def)
next
  case False
  then show ?thesis by (simp add: split_on_no_sep)
qed

lemma scan_config_find:
  "scan_config m lines =
     (case find (\<lambda>l. startswith l ''SpecFormatVersion'') lines of
        None \<Rightarrow> Inr 0
      | Some line \<Rightarrow>
          if CHR ''='' \<in> set line then py_int m (field_after_first_eq line)
          else Inl IndexError)"
proof (induction lines)
  case Nil
  then show ?case by simp
next
  case (Cons l ls)
  show ?case
  proof (cases "startswith l ''SpecFormatVersion''")
    case True
    then show ?thesis using version_line_field[of m l] by simp
  next
    case False
    then show ?thesis using Cons by simp
  qed
qed

lemma init_configuration:
  assumes "init E now ign = Inr rc"
  shows "\<exists>text s'. configuration E (session_before_configuration E now) = (Inr text, s')
      \<and> scan_config (int_max_str_digits E) (split_on (CHR 0x0A) text)
          = Inr (spectrum_format_version rc)"
  using assms
  by (auto simp: init_def session_before_configuration_def
      split: sum.splits prod.splits if_splits)

text \<open>The decimal numeral of a number is parsed back to that number.\<close>

declare decimal.simps [simp del]

lemma is_digit_char_of: "d < 10 \<Longrightarrow> is_digit (char_of (48 + d :: nat))"
  by (simp add: is_digit_def)

lemma digit_value_char_of: "d < 10 \<Longrightarrow> (of_char (char_of (48 + d :: nat)) :: int) = 48 + int d"
proof -
  assume d: "d < 10"
  have "(of_char (char_of (48 + d :: nat)) :: int) = int (of_char (char_of (48 + d :: nat)))"
    by (simp only: of_nat_of_char)
  also have "\<dots> = int (48 + d)" using d by simp
  finally show ?thesis by simp
qed

lemma digit_not_space: "is_digit c \<Longrightarrow> \<not> int_space c"
  by (auto simp: is_digit_def int_space_def)

lemma digit_not_sign: "is_digit c \<Longrightarrow> c \<noteq> CHR ''-'' \<and> c \<noteq> CHR ''+'' \<and> c \<noteq> CHR ''_''"
  by (auto simp: is_digit_def)

lemma decimal_not_Nil: "decimal n \<noteq> []"
  by (subst decimal.simps) simp

lemma decimal_digits: "c \<in> set (decimal n) \<Longrightarrow> is_digit c"
proof (induction n arbitrary: c rule: decimal.induct)
  case (1 n)
  show ?case
  proof (cases "n < 10")
    case True
    then show ?thesis using "1.prems" by (subst (asm) decimal.simps) (simp add: is_digit_char_of)
  next
    case False
    then have "c \<in> set (decimal (n div 10)) \<or> c = char_of (48 + n mod 10)"
      using "1.prems" by (subst (asm) decimal.simps) auto
    then show ?thesis using "1.IH"[OF False] by (auto simp: is_digit_char_of)
  qed
qed

lemma digits_value_snoc:
  "digits_value (ds @ [c]) = 10 * digits_value ds + (of_char c - 48)"
  by (simp add: digits_value_def)

lemma digits_value_decimal: "digits_value (decimal n) = int n"
proof (induction n rule: decimal.induct)
  case (1 n)
  show ?case
  proof (cases "n < 10")
    case True
    then show ?thesis
      by (subst decimal.simps) (simp add: digits_value_def digit_value_char_of)
  next
    case False
    have "digits_value (decimal n)
        = 10 * digits_value (decimal (n div 10)) + (of_char (char_of (48 + n mod 10)) - 48)"
      using False by (subst decimal.simps) (simp add: digits_value_snoc)
    also have "\<dots> = 10 * int (n div 10) + int (n mod 10)"
      using "1.IH"[OF False] by (simp add: digit_value_char_of)
    also have "\<dots> = int n" by (simp add: zdiv_int zmod_int)
    finally show ?thesis .
  qed
qed

lemma digits_ok_all:
  "\<forall>c \<in> set ds. is_digit c \<Longrightarrow> ds \<noteq> [] \<or> p \<Longrightarrow> digits_ok p ds"
  by (induction ds arbitrary: p) auto

lemma filter_digits: "\<forall>c \<in> set ds. is_digit c \<Longrightarrow> filter is_digit ds = ds"
  by (induction ds) auto

lemma strip_decimal:
  assumes "\<forall>c \<in> set lead. int_space c" "\<forall>c \<in> set trail. int_space c"
    and "body \<noteq> []" "\<not> int_space (hd body)" "\<not> int_space (last body)"
  shows "rev (dropWhile int_space (rev (dropWhile int_space (lead @ body @ trail)))) = body"
proof -
  have a: "dropWhile int_space (lead @ body @ trail) = body @ trail"
  proof -
    have "dropWhile int_space (lead @ body @ trail) = dropWhile int_space (body @ trail)"
      by (rule dropWhile_append2) (use assms(1) in simp)
    also have "\<dots> = body @ trail"
      using assms(3,4) by (cases body) simp_all
    finally show ?thesis .
  qed
  have "dropWhile int_space (rev trail @ rev body) = dropWhile int_space (rev body)"
    by (rule dropWhile_append2) (use assms(2) in simp)
  then have "dropWhile int_space (rev (body @ trail)) = dropWhile int_space (rev body)"
    by simp
  also have "\<dots> = rev body"
    using assms(3,5) by (cases "rev body") (simp_all add: last_rev[symmetric] hd_rev)
  finally show ?thesis by (simp add: a)
qed

lemma py_int_decimal:
  assumes "\<forall>c \<in> set lead. int_space c" "\<forall>c \<in> set trail. int_space c"
    and "sign \<in> {[], ''+'', ''-''}"
    and "m = 0 \<or> length (decimal n) \<le> m"
  shows "py_int m (lead @ sign @ decimal n @ trail)
      = Inr (if sign = ''-'' then - int n else int n)"
proof -
  let ?body = "sign @ decimal n"
  have d: "\<forall>c \<in> set (decimal n). is_digit c" using decimal_digits by blast
  have ne: "decimal n \<noteq> []" by (rule decimal_not_Nil)
  have hd_d: "is_digit (hd (decimal n))" and last_d: "is_digit (last (decimal n))"
    using d ne by simp_all
  have sp: "\<not> int_space (CHR ''+'')" "\<not> int_space (CHR ''-'')"
    by (simp_all add: int_space_def)
  have h: "\<not> int_space (hd ?body)"
    using assms(3) hd_d digit_not_space sp ne by (auto simp: hd_append)
  have l: "\<not> int_space (last ?body)"
    using last_d digit_not_space ne by simp
  have u: "rev (dropWhile int_space (rev (dropWhile int_space (lead @ sign @ decimal n @ trail))))
      = ?body"
    using strip_decimal[OF assms(1,2) _ h l] ne by simp
  have b: "(if ?body \<noteq> [] \<and> (hd ?body = CHR ''-'' \<or> hd ?body = CHR ''+'') then tl ?body else ?body)
      = decimal n"
    using assms(3) hd_d digit_not_sign ne by (auto simp: hd_append)
  have neg: "(?body \<noteq> [] \<and> hd ?body = CHR ''-'') = (sign = ''-'')"
    using assms(3) hd_d digit_not_sign ne by (auto simp: hd_append)
  have ok: "digits_ok False (decimal n)" using d ne by (simp add: digits_ok_all)
  have f: "filter is_digit (decimal n) = decimal n" using d by (rule filter_digits)
  show ?thesis
    using assms(4) unfolding py_int_def u Let_def b neg f
    by (auto simp: ok digits_value_decimal)
qed


lemma field_nonempty_has_eq:
  assumes "field_after_first_eq line \<noteq> []"
  shows "CHR ''='' \<in> set line"
proof (rule ccontr)
  assume "CHR ''='' \<notin> set line"
  then have "\<forall>x \<in> set line. x \<noteq> CHR ''=''" by auto
  then have "dropWhile (\<lambda>c. c \<noteq> CHR ''='') line = []" by simp
  then have "field_after_first_eq line = []" by (simp only: field_after_first_eq_def list.sel takeWhile.simps)
  with assms show False by simp
qed

lemma blanks_int_space:
  "set ws \<subseteq> {CHR 0x09, CHR 0x0A, CHR 0x0B, CHR 0x0C, CHR 0x0D, CHR 0x20, CHR 0xA0}
     \<Longrightarrow> \<forall>c \<in> set ws. int_space c"
  by (auto simp: int_space_def)

lemma scan_config_decimal:
  assumes "find (\<lambda>l. startswith l ''SpecFormatVersion'') lines = Some line"
    and "field_after_first_eq line = lead @ sign @ decimal n @ trail"
    and "set lead \<subseteq> {CHR 0x09, CHR 0x0A, CHR 0x0B, CHR 0x0C, CHR 0x0D, CHR 0x20, CHR 0xA0}"
    and "set trail \<subseteq> {CHR 0x09, CHR 0x0A, CHR 0x0B, CHR 0x0C, CHR 0x0D, CHR 0x20, CHR 0xA0}"
    and "sign \<in> {[], ''+'', ''-''}"
    and "m = 0 \<or> length (decimal n) \<le> m"
  shows "scan_config m lines = Inr (if sign = ''-'' then - int n else int n)"
proof -
  have "field_after_first_eq line \<noteq> []"
    using decimal_not_Nil[of n] by (simp add: assms(2))
  then have e: "CHR ''='' \<in> set line" by (rule field_nonempty_has_eq)
  have "scan_config m lines = py_int m (field_after_first_eq line)"
    by (simp add: scan_config_find assms(1) e)
  also have "\<dots> = Inr (if sign = ''-'' then - int n else int n)"
    unfolding assms(2)
    by (rule py_int_decimal[OF blanks_int_space[OF assms(3)] blanks_int_space[OF assms(4)]
          assms(5,6)])
  finally show ?thesis .
qed

lemma init_version_decimal:
  assumes "init E now ign = Inr rc"
    and "fst (configuration E (session_before_configuration E now)) = Inr cfg"
    and "find (\<lambda>l. startswith l ''SpecFormatVersion'') (split_on (CHR 0x0A) cfg) = Some line"
    and "field_after_first_eq line = lead @ sign @ decimal n @ trail"
    and "set lead \<subseteq> {CHR 0x09, CHR 0x0A, CHR 0x0B, CHR 0x0C, CHR 0x0D, CHR 0x20, CHR 0xA0}"
    and "set trail \<subseteq> {CHR 0x09, CHR 0x0A, CHR 0x0B, CHR 0x0C, CHR 0x0D, CHR 0x20, CHR 0xA0}"
    and "sign \<in> {[], ''+'', ''-''}"
    and "int_max_str_digits E = 0 \<or> length (decimal n) \<le> int_max_str_digits E"
  shows "spectrum_format_version rc = (if sign = ''-'' then - int n else int n)"
proof -
  from init_configuration[OF assms(1)] obtain cfg' s' where
    c: "configuration E (session_before_configuration E now) = (Inr cfg', s')"
    and v: "scan_config (int_max_str_digits E) (split_on (CHR 0x0A) cfg')
          = Inr (spectrum_format_version rc)"
    by blast
  from c assms(2) have "cfg' = cfg" by simp
  with v scan_config_decimal[OF assms(3-8)] show ?thesis by simp
qed


text \<open>
  C9. When the configuration text read during initialization has no line that starts
  with \<open>SpecFormatVersion\<close>, the spectrum format version of the session is 0;
  otherwise it is the integer parsed after the first \<open>=\<close> of the first such line. The
  first part states the scan of the lines by itself, with its two ways to raise; the
  second part is about the session that \<open>__init__\<close> returns. The third and fourth part
  say which integer the parse gives: when the text after the first \<open>=\<close> is the
  decimal numeral of \<open>n\<close>, with an optional sign before it and white space around it,
  the scan gives, and the session carries, the number \<open>n\<close> with that sign.
\<close>

theorem spectrum_format_version_parsed:
  "scan_config m lines =
     (case find (\<lambda>l. startswith l ''SpecFormatVersion'') lines of
        None \<Rightarrow> Inr 0
      | Some line \<Rightarrow>
          if CHR ''='' \<in> set line then py_int m (field_after_first_eq line)
          else Inl IndexError)
   \<and> (init E now ign = Inr rc \<longrightarrow>
        (\<exists>text s'. configuration E (session_before_configuration E now) = (Inr text, s')
           \<and> (case find (\<lambda>l. startswith l ''SpecFormatVersion'') (split_on (CHR 0x0A) text) of
                 None \<Rightarrow> spectrum_format_version rc = 0
               | Some line \<Rightarrow>
                   py_int (int_max_str_digits E) (field_after_first_eq line)
                     = Inr (spectrum_format_version rc))))
   \<and> (find (\<lambda>l. startswith l ''SpecFormatVersion'') lines = Some vline
        \<and> field_after_first_eq vline = lead @ sign @ decimal n @ trail
        \<and> set lead \<subseteq> {CHR 0x09, CHR 0x0A, CHR 0x0B, CHR 0x0C, CHR 0x0D, CHR 0x20, CHR 0xA0}
        \<and> set trail \<subseteq> {CHR 0x09, CHR 0x0A, CHR 0x0B, CHR 0x0C, CHR 0x0D, CHR 0x20, CHR 0xA0}
        \<and> sign \<in> {[], ''+'', ''-''}
        \<and> (m = 0 \<or> length (decimal n) \<le> m)
      \<longrightarrow> scan_config m lines = Inr (if sign = ''-'' then - int n else int n))
   \<and> (init E now ign = Inr rc
        \<and> fst (configuration E (session_before_configuration E now)) = Inr cfg
        \<and> find (\<lambda>l. startswith l ''SpecFormatVersion'') (split_on (CHR 0x0A) cfg) = Some cline
        \<and> field_after_first_eq cline = clead @ csign @ decimal cn @ ctrail
        \<and> set clead \<subseteq> {CHR 0x09, CHR 0x0A, CHR 0x0B, CHR 0x0C, CHR 0x0D, CHR 0x20, CHR 0xA0}
        \<and> set ctrail \<subseteq> {CHR 0x09, CHR 0x0A, CHR 0x0B, CHR 0x0C, CHR 0x0D, CHR 0x20, CHR 0xA0}
        \<and> csign \<in> {[], ''+'', ''-''}
        \<and> (int_max_str_digits E = 0 \<or> length (decimal cn) \<le> int_max_str_digits E)
      \<longrightarrow> spectrum_format_version rc = (if csign = ''-'' then - int cn else int cn))"
proof (intro conjI impI)
  show "scan_config m lines =
     (case find (\<lambda>l. startswith l ''SpecFormatVersion'') lines of
        None \<Rightarrow> Inr 0
      | Some line \<Rightarrow>
          if CHR ''='' \<in> set line then py_int m (field_after_first_eq line)
          else Inl IndexError)"
    by (rule scan_config_find)
next
  assume "init E now ign = Inr rc"
  from init_configuration[OF this] obtain cfg' s' where
    c: "configuration E (session_before_configuration E now) = (Inr cfg', s')"
    and v: "scan_config (int_max_str_digits E) (split_on (CHR 0x0A) cfg')
          = Inr (spectrum_format_version rc)"
    by blast
  have "case find (\<lambda>l. startswith l ''SpecFormatVersion'') (split_on (CHR 0x0A) cfg') of
          None \<Rightarrow> spectrum_format_version rc = 0
        | Some line \<Rightarrow>
            py_int (int_max_str_digits E) (field_after_first_eq line)
              = Inr (spectrum_format_version rc)"
    using v unfolding scan_config_find
    by (auto split: option.splits if_splits)
  with c show "\<exists>text s'. configuration E (session_before_configuration E now) = (Inr text, s')
           \<and> (case find (\<lambda>l. startswith l ''SpecFormatVersion'') (split_on (CHR 0x0A) text) of
                 None \<Rightarrow> spectrum_format_version rc = 0
               | Some line \<Rightarrow>
                   py_int (int_max_str_digits E) (field_after_first_eq line)
                     = Inr (spectrum_format_version rc))"
    by blast
next
  assume "find (\<lambda>l. startswith l ''SpecFormatVersion'') lines = Some vline
        \<and> field_after_first_eq vline = lead @ sign @ decimal n @ trail
        \<and> set lead \<subseteq> {CHR 0x09, CHR 0x0A, CHR 0x0B, CHR 0x0C, CHR 0x0D, CHR 0x20, CHR 0xA0}
        \<and> set trail \<subseteq> {CHR 0x09, CHR 0x0A, CHR 0x0B, CHR 0x0C, CHR 0x0D, CHR 0x20, CHR 0xA0}
        \<and> sign \<in> {[], ''+'', ''-''}
        \<and> (m = 0 \<or> length (decimal n) \<le> m)"
  then show "scan_config m lines = Inr (if sign = ''-'' then - int n else int n)"
    by (intro scan_config_decimal[where line = vline and lead = lead and trail = trail]) blast+
next
  assume "init E now ign = Inr rc
        \<and> fst (configuration E (session_before_configuration E now)) = Inr cfg
        \<and> find (\<lambda>l. startswith l ''SpecFormatVersion'') (split_on (CHR 0x0A) cfg) = Some cline
        \<and> field_after_first_eq cline = clead @ csign @ decimal cn @ ctrail
        \<and> set clead \<subseteq> {CHR 0x09, CHR 0x0A, CHR 0x0B, CHR 0x0C, CHR 0x0D, CHR 0x20, CHR 0xA0}
        \<and> set ctrail \<subseteq> {CHR 0x09, CHR 0x0A, CHR 0x0B, CHR 0x0C, CHR 0x0D, CHR 0x20, CHR 0xA0}
        \<and> csign \<in> {[], ''+'', ''-''}
        \<and> (int_max_str_digits E = 0 \<or> length (decimal cn) \<le> int_max_str_digits E)"
  then show "spectrum_format_version rc = (if csign = ''-'' then - int cn else int cn)"
    by (intro init_version_decimal[where E = E and now = now and ign = ign and cfg = cfg
          and line = cline and lead = clead and trail = ctrail]) blast+
qed

lemma sample_configuration:
  "fst (configuration (sample_env (fw_device 4 8 sample_cfg))
         (session_before_configuration (sample_env (fw_device 4 8 sample_cfg)) sample_now))
     = Inr (''DeviceName=RC'' @ [CHR 0x0A] @ ''SpecFormatVersion=1'' @ [CHR 0x0A])"
  by code_simp

theorem spectrum_format_version_parsed_witness:
  "init (sample_env (fw_device 4 8 sample_cfg)) sample_now False = Inr sample_session
   \<and> spectrum_format_version sample_session = 1
   \<and> scan_config 0 [''DeviceName=RC'', ''SpecFormatVersion=7'' @ [CHR 0x0D], []] = Inr 7
   \<and> scan_config 0 [''SpecFormatVersion = -3''] = Inr (- 3)
   \<and> scan_config 0 [''DeviceName=RC''] = Inr 0"
proof -
  let ?E = "sample_env (fw_device 4 8 sample_cfg)"
  let ?blanks = "{CHR 0x09, CHR 0x0A, CHR 0x0B, CHR 0x0C, CHR 0x0D, CHR 0x20, CHR 0xA0}"
  note t = spectrum_format_version_parsed
  have d1: "decimal (Suc 0) = ''1''" by code_simp
  have d7: "decimal 7 = ''7''" by code_simp
  have d3: "decimal 3 = ''3''" by code_simp
  \<comment> \<open>the scan of a line with a carriage return after the number\<close>
  have a1: "find (\<lambda>l. startswith l ''SpecFormatVersion'')
      [''DeviceName=RC'', ''SpecFormatVersion=7'' @ [CHR 0x0D], []]
        = Some (''SpecFormatVersion=7'' @ [CHR 0x0D])"
    by (simp add: startswith_def)
  have a2: "field_after_first_eq (''SpecFormatVersion=7'' @ [CHR 0x0D])
      = [] @ [] @ decimal 7 @ [CHR 0x0D]"
    by (simp add: field_after_first_eq_def d7)
  have a3: "set [] \<subseteq> ?blanks" "set [CHR 0x0D] \<subseteq> ?blanks" "[] \<in> {[], ''+'', ''-''}"
    "(0::nat) = 0 \<or> length (decimal 7) \<le> 0"
    by simp_all
  have a: "scan_config 0 [''DeviceName=RC'', ''SpecFormatVersion=7'' @ [CHR 0x0D], []] = Inr 7"
    using t[where m = 0 and lines = "[''DeviceName=RC'', ''SpecFormatVersion=7'' @ [CHR 0x0D], []]"
        and vline = "''SpecFormatVersion=7'' @ [CHR 0x0D]" and lead = "[]" and sign = "[]"
        and n = 7 and trail = "[CHR 0x0D]", THEN conjunct2, THEN conjunct2, THEN conjunct1]
      a1 a2 a3
    by simp
  \<comment> \<open>the scan of a line with a sign and spaces\<close>
  have b1: "find (\<lambda>l. startswith l ''SpecFormatVersion'') [''SpecFormatVersion = -3'']
        = Some ''SpecFormatVersion = -3''"
    by (simp add: startswith_def)
  have b2: "field_after_first_eq ''SpecFormatVersion = -3'' = '' '' @ ''-'' @ decimal 3 @ []"
    by (simp add: field_after_first_eq_def d3)
  have b3: "set '' '' \<subseteq> ?blanks" "set [] \<subseteq> ?blanks" "''-'' \<in> {[], ''+'', ''-''}"
    "(0::nat) = 0 \<or> length (decimal 3) \<le> 0"
    by simp_all
  have b: "scan_config 0 [''SpecFormatVersion = -3''] = Inr (- 3)"
    using t[where m = 0 and lines = "[''SpecFormatVersion = -3'']"
        and vline = "''SpecFormatVersion = -3''" and lead = "'' ''" and sign = "''-''"
        and n = 3 and trail = "[]", THEN conjunct2, THEN conjunct2, THEN conjunct1]
      b1 b2 b3
    by simp
  \<comment> \<open>no version line\<close>
  have c: "scan_config 0 [''DeviceName=RC''] = Inr 0"
    using t[where m = 0 and lines = "[''DeviceName=RC'']", THEN conjunct1]
    by (simp add: startswith_def)
  \<comment> \<open>the session made by initialization\<close>
  let ?cfg = "''DeviceName=RC'' @ [CHR 0x0A] @ ''SpecFormatVersion=1'' @ [CHR 0x0A]"
  have e1: "find (\<lambda>l. startswith l ''SpecFormatVersion'') (split_on (CHR 0x0A) ?cfg)
        = Some ''SpecFormatVersion=1''"
    by (simp add: startswith_def)
  have e2: "field_after_first_eq ''SpecFormatVersion=1'' = [] @ [] @ decimal 1 @ []"
    by (simp add: field_after_first_eq_def d1)
  have e3: "set [] \<subseteq> ?blanks" "[] \<in> {[], ''+'', ''-''}"
    "int_max_str_digits ?E = 0 \<or> length (decimal 1) \<le> int_max_str_digits ?E"
    by (simp_all add: sample_env_def)
  have e: "spectrum_format_version sample_session = 1"
    using t[where E = ?E and now = sample_now and ign = False and rc = sample_session
        and cfg = ?cfg and cline = "''SpecFormatVersion=1''" and clead = "[]" and csign = "[]"
        and cn = 1 and ctrail = "[]", THEN conjunct2, THEN conjunct2, THEN conjunct2]
      init_sample_session sample_configuration e1 e2 e3
    by simp
  show ?thesis using a b c e init_sample_session by blast
qed

section \<open>The firmware check\<close>

text \<open>
  What the guard of the firmware exception amounts to: with the check enforced, the
  version is below 4.8; with the check to be ignored, the major version is 4 and the
  minor version is below 8.
\<close>

lemma firmware_incompatible_cases:
  "firmware_incompatible False vmaj vmin = (vmaj < 4 \<or> (vmaj = 4 \<and> vmin < 8))"
  "firmware_incompatible True vmaj vmin = (vmaj = 4 \<and> vmin < 8)"
  by (simp_all add: firmware_incompatible_def)

text \<open>
  C1. Initialization is to raise for an unsupported firmware version exactly when the
  check is enforced, and never when \<open>ignore_firmware_compatibility_check\<close> is set. On
  the code this fails: with the flag set and a device that reports target version 4.7,
  \<open>__init__\<close> raises the firmware exception.
\<close>

theorem init_ignoring_check_rejects_4_7:
  "init (sample_env (fw_device 4 7 sample_cfg)) sample_now True = Inl IncompatibleFirmwareError"
  by code_simp

text \<open>With the flag set, a version with a major number below 4 is let through.\<close>

lemma init_ignoring_check_accepts_3_9:
  "init (sample_env (fw_device 3 9 sample_cfg)) sample_now True = Inr sample_session"
  by code_simp

section \<open>The channel to energy conversion\<close>

lemma float_mul_zero: "is_finite a \<Longrightarrow> rnd 0 = Fin 0 \<Longrightarrow> float_mul rnd a (Fin 0) = Fin 0"
  by (cases a) (simp_all add: is_finite_def)

lemma float_mul_zero_nan: "\<not> is_finite a \<Longrightarrow> float_mul rnd a (Fin 0) = NaN"
  by (cases a) (simp_all add: is_finite_def)

lemma float_add_zero:
  "is_float rnd a \<Longrightarrow> a \<noteq> NaN \<Longrightarrow> float_add rnd a (Fin 0) = a"
  by (cases a) (simp_all add: is_float_def)

lemma float_add_nan_right [simp]: "float_add rnd a NaN = NaN"
  by (cases a) simp_all

lemma float_of_int_zero: "rnd 0 = Fin 0 \<Longrightarrow> float_of_int rnd 0 = Inr (Fin 0)"
  by (simp add: float_of_int_def)

text \<open>
  C7, as the code has it. For every calibration triple in which \<open>a0\<close> is a float
  other than NaN and \<open>a1\<close> and \<open>a2\<close> are finite, \<open>spectrum_channel_to_energy\<close> at
  channel 0 returns \<open>a0\<close>, and the result compares equal to \<open>a0\<close>. When \<open>a0\<close> is NaN,
  or \<open>a1\<close> or \<open>a2\<close> is an infinity or NaN, it returns NaN. The function is the
  floating-point evaluation of the quadratic, a value computed from its arguments only.
\<close>

theorem spectrum_channel_to_energy_at_zero:
  assumes "rnd 0 = Fin 0" and "is_float rnd a0"
  shows "(a0 \<noteq> NaN \<and> is_finite a1 \<and> is_finite a2
            \<longrightarrow> spectrum_channel_to_energy rnd 0 a0 a1 a2 = Inr a0 \<and> float_eq a0 a0)
       \<and> (a0 = NaN \<or> \<not> is_finite a1 \<or> \<not> is_finite a2
            \<longrightarrow> spectrum_channel_to_energy rnd 0 a0 a1 a2 = Inr NaN)"
proof (intro conjI impI)
  assume h: "a0 \<noteq> NaN \<and> is_finite a1 \<and> is_finite a2"
  then show "spectrum_channel_to_energy rnd 0 a0 a1 a2 = Inr a0"
    using assms
    by (simp add: spectrum_channel_to_energy_def float_of_int_zero float_mul_zero float_add_zero)
  show "float_eq a0 a0" using h by (simp add: float_eq_def)
next
  assume h: "a0 = NaN \<or> \<not> is_finite a1 \<or> \<not> is_finite a2"
  have m: "float_mul rnd (float_mul rnd a2 (Fin 0)) (Fin 0) = (if is_finite a2 then Fin 0 else NaN)"
    using assms(1) by (simp add: float_mul_zero float_mul_zero_nan is_finite_def)
  show "spectrum_channel_to_energy rnd 0 a0 a1 a2 = Inr NaN"
  proof (cases "is_finite a2")
    case False
    then show ?thesis
      using assms(1) by (simp add: spectrum_channel_to_energy_def float_of_int_zero m)
  next
    case a2: True
    show ?thesis
    proof (cases "is_finite a1")
      case False
      then show ?thesis
        using assms(1)
        by (simp add: spectrum_channel_to_energy_def float_of_int_zero float_mul_zero_nan)
    next
      case True
      with h a2 have "a0 = NaN" by simp
      then show ?thesis
        using assms(1) by (simp add: spectrum_channel_to_energy_def float_of_int_zero)
    qed
  qed
qed

theorem spectrum_channel_to_energy_at_zero_witness:
  "no_rounding 0 = Fin 0 \<and> is_float no_rounding (Fin (5 / 2))
   \<and> spectrum_channel_to_energy no_rounding 0 (Fin (5 / 2)) (Fin 3) (Fin (1 / 1000))
       = Inr (Fin (5 / 2))
   \<and> float_eq (Fin (5 / 2)) (Fin (5 / 2))
   \<and> spectrum_channel_to_energy no_rounding 0 (Fin (5 / 2)) (Fin 3) NInf = Inr NaN"
proof -
  have h1: "no_rounding 0 = Fin 0" by (simp add: no_rounding_def)
  have h2: "is_float no_rounding (Fin (5 / 2))" by (simp add: is_float_def no_rounding_def)
  have f: "Fin (5 / 2) \<noteq> NaN \<and> is_finite (Fin 3) \<and> is_finite (Fin (1 / 1000))"
    by (simp add: is_finite_def)
  have g: "Fin (5 / 2) = NaN \<or> \<not> is_finite (Fin 3) \<or> \<not> is_finite NInf"
    by (simp add: is_finite_def)
  note a = spectrum_channel_to_energy_at_zero[OF h1 h2, of "Fin 3" "Fin (1 / 1000)"]
  note b = spectrum_channel_to_energy_at_zero[OF h1 h2, of "Fin 3" NInf]
  show ?thesis using h1 h2 a f b g by blast
qed

text \<open>
  The claim as worded, for every calibration triple, fails: with \<open>a0 = 1.0\<close>, an
  infinite \<open>a1\<close> and \<open>a2 = 0.0\<close> the product \<open>a1 * 0\<close> is NaN, and so is the result, which
  is not \<open>a0\<close>.
\<close>

theorem spectrum_channel_to_energy_infinite_a1:
  "spectrum_channel_to_energy no_rounding 0 (Fin 1) PInf (Fin 0) = Inr NaN
   \<and> spectrum_channel_to_energy no_rounding 0 (Fin 1) PInf (Fin 0) \<noteq> Inr (Fin 1)
   \<and> \<not> float_eq NaN (Fin 1)"
  by (simp add: spectrum_channel_to_energy_def float_of_int_def no_rounding_def float_eq_def)


end
